theory Spec2Isabelle
  imports Main "HOL-Library.Word"
begin

unbundle bit_operations_syntax

section \<open>Toolkit values\<close>

text \<open>
  The module under verification is \<^verbatim>\<open>src/widgets/framelesswidgetshelper.cpp\<close>. Everything
  it touches is an object of the widget toolkit, so the toolkit is modelled first: value
  types with the toolkit's own member names, object identities as numbers, pointers as
  options (\<open>None\<close> is \<^verbatim>\<open>nullptr\<close>). Coordinates are \<open>int\<close>: widget coordinates are far
  from the limits of a machine \<^verbatim>\<open>int\<close>, and signed overflow has no defined result in C++.
\<close>

datatype QPoint = QPoint (xp: int) (yp: int)

datatype QSize = QSize (wd: int) (ht: int)

datatype QRect = QRect (x1: int) (y1: int) (x2: int) (y2: int)

text \<open>\<^verbatim>\<open>QSize::isEmpty\<close>: either dimension below 1.\<close>

definition QSize_isEmpty :: "QSize \<Rightarrow> bool" where
  "QSize_isEmpty s = (wd s < 1 \<or> ht s < 1)"

text \<open>\<^verbatim>\<open>QRect()\<close>, the null rectangle, and \<^verbatim>\<open>QRect(topLeft, size)\<close>.\<close>

definition QRect_null :: QRect where
  "QRect_null = QRect 0 0 (- 1) (- 1)"

definition QRect_from :: "QPoint \<Rightarrow> QSize \<Rightarrow> QRect" where
  "QRect_from topleft s =
     QRect (xp topleft) (yp topleft) (xp topleft + wd s - 1) (yp topleft + ht s - 1)"

definition QRect_topLeft :: "QRect \<Rightarrow> QPoint" where
  "QRect_topLeft r = QPoint (x1 r) (y1 r)"

definition QRect_size :: "QRect \<Rightarrow> QSize" where
  "QRect_size r = QSize (x2 r - x1 r + 1) (y2 r - y1 r + 1)"

definition QRect_setSize :: "QRect \<Rightarrow> QSize \<Rightarrow> QRect" where
  "QRect_setSize r s = QRect (x1 r) (y1 r) (x1 r + wd s - 1) (y1 r + ht s - 1)"

definition QRect_isEmpty :: "QRect \<Rightarrow> bool" where
  "QRect_isEmpty r = (x1 r > x2 r \<or> y1 r > y2 r)"

text \<open>
  \<^verbatim>\<open>QRect::contains(const QPoint &)\<close>: a rectangle whose right edge lies left of its left
  edge by more than one (a negative width) is read with the edges swapped, and the same
  vertically; the edges belong to the rectangle.
\<close>

definition QRect_contains :: "QRect \<Rightarrow> QPoint \<Rightarrow> bool" where
  "QRect_contains r p =
     (let l = (if x2 r < x1 r - 1 then x2 r else x1 r);
          rr = (if x2 r < x1 r - 1 then x1 r else x2 r)
      in if xp p < l \<or> xp p > rr then False
         else
           let t = (if y2 r < y1 r - 1 then y2 r else y1 r);
               b = (if y2 r < y1 r - 1 then y1 r else y2 r)
           in if yp p < t \<or> yp p > b then False else True)"

text \<open>
  A \<^verbatim>\<open>QRegion\<close> is a set of points, kept here as its membership test.
  \<^verbatim>\<open>QRegion(const QRect &)\<close> is empty for an empty rectangle; \<^verbatim>\<open>operator-=\<close> removes the
  points of the other region; \<^verbatim>\<open>contains\<close> tests one point.
\<close>

type_synonym QRegion = "QPoint \<Rightarrow> bool"

definition QRegion_from :: "QRect \<Rightarrow> QRegion" where
  "QRegion_from r =
     (\<lambda>p. \<not> QRect_isEmpty r \<and> x1 r \<le> xp p \<and> xp p \<le> x2 r \<and> y1 r \<le> yp p \<and> yp p \<le> y2 r)"

definition QRegion_subtracted :: "QRegion \<Rightarrow> QRegion \<Rightarrow> QRegion" where
  "QRegion_subtracted a b = (\<lambda>p. a p \<and> \<not> b p)"

definition QRegion_contains :: "QRegion \<Rightarrow> QPoint \<Rightarrow> bool" where
  "QRegion_contains a p = a p"

text \<open>\<^verbatim>\<open>QSizePolicy\<close>: equality compares every field; the two-argument constructor leaves
  the stretch factors 0, the control type \<^verbatim>\<open>DefaultType\<close> (1) and the flags off.\<close>

datatype Policy = Fixed | Minimum | Maximum | Preferred | MinimumExpanding | Expanding | Ignored

datatype QSizePolicy =
  QSizePolicy (horPolicy: Policy) (verPolicy: Policy) (horStretch: nat) (verStretch: nat)
    (ctype: nat) (hfw: bool) (wfh: bool) (retainSizeWhenHidden: bool)

definition QSizePolicy_of :: "Policy \<Rightarrow> Policy \<Rightarrow> QSizePolicy" where
  "QSizePolicy_of h v = QSizePolicy h v 0 0 1 False False False"

text \<open>Window flags and window states are 32-bit flag words.\<close>

type_synonym WindowFlags = "32 word"

definition MSWindowsFixedSizeDialogHint :: WindowFlags where
  "MSWindowsFixedSizeDialogHint = 0x100"

definition WindowMinimized :: "32 word" where
  "WindowMinimized = 0x1"

definition QWIDGETSIZE_MAX :: int where
  "QWIDGETSIZE_MAX = 16777215"

text \<open>
  The meta-object of a widget lists the slots and signals it exposes by normalised
  signature. \<^verbatim>\<open>indexOfSlot\<close> and \<^verbatim>\<open>indexOfSignal\<close> return -1 for a signature that is not
  listed.
\<close>

datatype QMetaObject = QMetaObject (slotSignatures: "string list") (signalSignatures: "string list")

primrec indexOf :: "string \<Rightarrow> string list \<Rightarrow> int" where
  "indexOf s [] = - 1"
| "indexOf s (x # xs) =
     (if x = s then 0 else (let i = indexOf s xs in if i < 0 then - 1 else i + 1))"

definition indexOfSlot :: "QMetaObject \<Rightarrow> string \<Rightarrow> int" where
  "indexOfSlot mo s = indexOf s (slotSignatures mo)"

definition indexOfSignal :: "QMetaObject \<Rightarrow> string \<Rightarrow> int" where
  "indexOfSignal mo s = indexOf s (signalSignatures mo)"

definition normalizedSignature :: "string \<Rightarrow> string" where
  "normalizedSignature s = filter (\<lambda>c. c \<noteq> CHR '' '') s"

section \<open>Objects, the helper and the module's data\<close>

type_synonym QWidget = nat
type_synonym QWindow = nat
type_synonym WId = nat

text \<open>A \<^verbatim>\<open>QObject\<close> is a widget or some other object; \<^verbatim>\<open>qobject_cast<QWidget *>\<close> tells
  them apart.\<close>

datatype QObject = WidgetObject QWidget | OtherObject nat

fun qobject_cast_QWidget :: "QObject option \<Rightarrow> QWidget option" where
  "qobject_cast_QWidget (Some (WidgetObject w)) = Some w"
| "qobject_cast_QWidget _ = None"

text \<open>The public helper object \<^verbatim>\<open>q\<close>: its identity and its \<^verbatim>\<open>parent()\<close>.\<close>

datatype FramelessWidgetsHelper = FramelessWidgetsHelper (helperId: nat) (parent: "QObject option")

datatype SystemButtonType = Unknown | WindowIcon | Help | Minimize | Maximize | Restore | Close

datatype ButtonState = Unspecified | Hovered | Pressed | Clicked

text \<open>
  \<^verbatim>\<open>SystemParameters\<close> is a bundle of callbacks. \<^verbatim>\<open>attachToWindow\<close> builds every one of
  them as a closure over the helper and its window, so a filled bundle is determined by
  those two; \<^verbatim>\<open>{}\<close> is the bundle of empty callbacks.
\<close>

datatype SystemParameters = NoParameters | ParametersOf FramelessWidgetsHelper QWidget

record WidgetsHelperData =
  attached :: bool
  params :: SystemParameters
  titleBarWidget :: "QWidget option"
  hitTestVisibleWidgets :: "QWidget option list"
  windowIconButton :: "QWidget option"
  contextHelpButton :: "QWidget option"
  minimizeButton :: "QWidget option"
  maximizeButton :: "QWidget option"
  closeButton :: "QWidget option"

text \<open>The member initialisers of \<^verbatim>\<open>struct WidgetsHelperData\<close>.\<close>

definition WidgetsHelperData_default :: WidgetsHelperData where
  "WidgetsHelperData_default =
     \<lparr> attached = False, params = NoParameters, titleBarWidget = None,
       hitTestVisibleWidgets = [], windowIconButton = None, contextHelpButton = None,
       minimizeButton = None, maximizeButton = None, closeButton = None \<rparr>"

text \<open>
  What the module does to the outside, in the order it does it: signals it emits,
  methods it invokes by name, calls into the rest of the library and into the toolkit
  that have no state of their own in this model.
\<close>

datatype WidgetAttribute = WA_DontCreateNativeAncestors | WA_NativeWindow

datatype event =
    Emitted FramelessWidgetsHelper string
  | InvokeMethod QWidget string "bool list"
  | FramelessManager_addWindow SystemParameters
  | QTimer_singleShot int FramelessWidgetsHelper QWidget
  | Utils_setAeroSnappingEnabled WId bool
  | Utils_moveWindowToDesktopCenter QWidget bool
  | Utils_showSystemMenu WId QPoint bool FramelessWidgetsHelper
  | Utils_startSystemMove "QWindow option" QPoint
  | Utils_startSystemResize "QWindow option" "32 word" QPoint
  | QWidget_raise QWidget
  | QWidget_activateWindow QWidget

text \<open>
  The state the module runs in: the global hash \<^verbatim>\<open>g_widgetsHelper()->data\<close>, the
  properties of the toolkit's widgets that the module reads or writes, and the trace of
  events. \<open>QWidget_mapTo w widget ancestor p\<close> is \<^verbatim>\<open>widget->mapTo(ancestor, p)\<close>;
  \<open>QWidget_geometry\<close> is \<^verbatim>\<open>geometry()\<close>, of which \<^verbatim>\<open>size()\<close> is the size;
  \<open>nativePosition w window p\<close> is the global position \<open>p\<close> scaled by the window's device
  pixel ratio and rounded.
\<close>

record world =
  g_widgetsHelper :: "WId \<Rightarrow> WidgetsHelperData option"
  QWidget_nativeParentWidget :: "QWidget \<Rightarrow> QWidget option"
  QWidget_window :: "QWidget \<Rightarrow> QWidget"
  QWidget_winId :: "QWidget \<Rightarrow> WId"
  QWidget_windowHandle :: "QWidget \<Rightarrow> QWindow option"
  QWidget_windowFlags :: "QWidget \<Rightarrow> WindowFlags"
  QWidget_windowState :: "QWidget \<Rightarrow> 32 word"
  QWidget_geometry :: "QWidget \<Rightarrow> QRect"
  QWidget_minimumSize :: "QWidget \<Rightarrow> QSize"
  QWidget_maximumSize :: "QWidget \<Rightarrow> QSize"
  QWidget_sizePolicy :: "QWidget \<Rightarrow> QSizePolicy"
  QWidget_isHidden :: "QWidget \<Rightarrow> bool"
  QWidget_attributes :: "QWidget \<Rightarrow> WidgetAttribute list"
  QWidget_mapTo :: "QWidget \<Rightarrow> QWidget \<Rightarrow> QPoint \<Rightarrow> QPoint"
  QWidget_mapToGlobal :: "QWidget \<Rightarrow> QPoint \<Rightarrow> QPoint"
  nativePosition :: "QWidget \<Rightarrow> QPoint \<Rightarrow> QPoint"
  QObject_metaObject :: "QWidget \<Rightarrow> QMetaObject option"
  events :: "event list"

text \<open>
  The build: whether \<^verbatim>\<open>Q_ASSERT\<close> is compiled in (it is unless \<^verbatim>\<open>QT_NO_DEBUG\<close> is
  defined, and a failed assertion then aborts the process), whether \<^verbatim>\<open>Q_OS_WINDOWS\<close> is
  defined, and the constant \<^verbatim>\<open>kDefaultWindowSize\<close>, which the library's global header
  defines.
\<close>

record build =
  assertions :: bool
  Q_OS_WINDOWS :: bool
  kDefaultWindowSize :: QSize

datatype abort = Q_ASSERT_failed

text \<open>\<open>Q_ASSERT_fails b c\<close>: the statement \<^verbatim>\<open>Q_ASSERT(c)\<close> aborts.\<close>

definition Q_ASSERT_fails :: "build \<Rightarrow> bool \<Rightarrow> bool" where
  "Q_ASSERT_fails b c = (assertions b \<and> \<not> c)"

text \<open>\<^verbatim>\<open>QHash::value(key)\<close>: the stored value, or a default-constructed one.\<close>

definition QHash_value :: "(WId \<Rightarrow> WidgetsHelperData option) \<Rightarrow> WId \<Rightarrow> WidgetsHelperData" where
  "QHash_value m k = (case m k of None \<Rightarrow> WidgetsHelperData_default | Some d \<Rightarrow> d)"

section \<open>The toolkit's setters\<close>

text \<open>
  \<^verbatim>\<open>size()\<close> is the size of the geometry and \<^verbatim>\<open>resize\<close> changes only that size.
  \<^verbatim>\<open>setMinimumSize\<close> and \<^verbatim>\<open>setMaximumSize\<close> store the bound and force the current size
  inside it; \<^verbatim>\<open>setFixedSize\<close> stores both bounds and resizes. \<^verbatim>\<open>setWindowFlags\<close>,
  \<^verbatim>\<open>setWindowState\<close> and \<^verbatim>\<open>setAttribute\<close> store their argument; \<^verbatim>\<open>show\<close> makes the
  widget not hidden.
\<close>

definition QWidget_size :: "world \<Rightarrow> QWidget \<Rightarrow> QSize" where
  "QWidget_size w x = QRect_size (QWidget_geometry w x)"

definition QWidget_resize :: "world \<Rightarrow> QWidget \<Rightarrow> QSize \<Rightarrow> world" where
  "QWidget_resize w x s =
     w\<lparr> QWidget_geometry := (QWidget_geometry w)(x := QRect_setSize (QWidget_geometry w x) s) \<rparr>"

definition QWidget_setMinimumSize :: "world \<Rightarrow> QWidget \<Rightarrow> QSize \<Rightarrow> world" where
  "QWidget_setMinimumSize w x s =
     (let w1 = w\<lparr> QWidget_minimumSize := (QWidget_minimumSize w)(x := s) \<rparr>;
          cur = QWidget_size w1 x
      in QWidget_resize w1 x (QSize (max (wd cur) (wd s)) (max (ht cur) (ht s))))"

definition QWidget_setMaximumSize :: "world \<Rightarrow> QWidget \<Rightarrow> QSize \<Rightarrow> world" where
  "QWidget_setMaximumSize w x s =
     (let w1 = w\<lparr> QWidget_maximumSize := (QWidget_maximumSize w)(x := s) \<rparr>;
          cur = QWidget_size w1 x
      in QWidget_resize w1 x (QSize (min (wd cur) (wd s)) (min (ht cur) (ht s))))"

definition QWidget_setFixedSize :: "world \<Rightarrow> QWidget \<Rightarrow> QSize \<Rightarrow> world" where
  "QWidget_setFixedSize w x s =
     QWidget_resize
       (w\<lparr> QWidget_minimumSize := (QWidget_minimumSize w)(x := s),
           QWidget_maximumSize := (QWidget_maximumSize w)(x := s) \<rparr>) x s"

definition QWidget_setWindowFlags :: "world \<Rightarrow> QWidget \<Rightarrow> WindowFlags \<Rightarrow> world" where
  "QWidget_setWindowFlags w x f = w\<lparr> QWidget_windowFlags := (QWidget_windowFlags w)(x := f) \<rparr>"

definition QWidget_setWindowState :: "world \<Rightarrow> QWidget \<Rightarrow> 32 word \<Rightarrow> world" where
  "QWidget_setWindowState w x s = w\<lparr> QWidget_windowState := (QWidget_windowState w)(x := s) \<rparr>"

definition QWidget_setAttribute :: "world \<Rightarrow> QWidget \<Rightarrow> WidgetAttribute \<Rightarrow> world" where
  "QWidget_setAttribute w x a =
     w\<lparr> QWidget_attributes := (QWidget_attributes w)(x := List.insert a (QWidget_attributes w x)) \<rparr>"

definition QWidget_show :: "world \<Rightarrow> QWidget \<Rightarrow> world" where
  "QWidget_show w x = w\<lparr> QWidget_isHidden := (QWidget_isHidden w)(x := False) \<rparr>"

definition record_event :: "world \<Rightarrow> event \<Rightarrow> world" where
  "record_event w e = w\<lparr> events := events w @ [e] \<rparr>"

section \<open>Resolving the window and its data\<close>

text \<open>
  The source holds \<^verbatim>\<open>g_widgetsHelper()->mutex\<close> while it reads or writes the hash and
  releases it before each function returns. A lock that is taken and released leaves the
  state as it found it, so the functions on the state below do not mention it; the lock
  and unlock operations of each member function are recorded on their own, in the section
  on the mutex.
\<close>

text \<open>
  \<^verbatim>\<open>getWindow\<close>: the helper's parent, if it is a widget, gives the window: its native
  parent widget when it has one, else its top-level \<^verbatim>\<open>window()\<close>.
\<close>

definition getWindow :: "world \<Rightarrow> FramelessWidgetsHelper \<Rightarrow> QWidget option" where
  "getWindow w q =
     (case qobject_cast_QWidget (parent q) of
        None \<Rightarrow> None
      | Some parentWidget \<Rightarrow>
          (case QWidget_nativeParentWidget w parentWidget of
             Some nativeParentWidget \<Rightarrow> Some nativeParentWidget
           | None \<Rightarrow> Some (QWidget_window w parentWidget)))"

text \<open>
  \<^verbatim>\<open>getWindowData\<close> returns a copy of the window's entry, inserting a default entry first
  when the hash has none; without a window it returns a default value and leaves the
  hash alone.
\<close>

definition getWindowData :: "world \<Rightarrow> FramelessWidgetsHelper \<Rightarrow> world \<times> WidgetsHelperData" where
  "getWindowData w q =
     (case getWindow w q of
        None \<Rightarrow> (w, WidgetsHelperData_default)
      | Some window \<Rightarrow>
          (let windowId = QWidget_winId w window;
               w1 = (if g_widgetsHelper w windowId = None
                     then w\<lparr> g_widgetsHelper := (g_widgetsHelper w)(windowId \<mapsto> WidgetsHelperData_default) \<rparr>
                     else w)
           in (w1, QHash_value (g_widgetsHelper w1) windowId)))"

text \<open>
  \<^verbatim>\<open>getWindowDataMutable\<close> returns a pointer to the window's entry, inserting a default
  entry first when the hash has none; the pointer is the key of the entry, and it is
  null without a window.
\<close>

definition getWindowDataMutable :: "world \<Rightarrow> FramelessWidgetsHelper \<Rightarrow> world \<times> WId option" where
  "getWindowDataMutable w q =
     (case getWindow w q of
        None \<Rightarrow> (w, None)
      | Some window \<Rightarrow>
          (let windowId = QWidget_winId w window;
               w1 = (if g_widgetsHelper w windowId = None
                     then w\<lparr> g_widgetsHelper := (g_widgetsHelper w)(windowId \<mapsto> WidgetsHelperData_default) \<rparr>
                     else w)
           in (w1, Some windowId)))"

text \<open>Reading and writing through such a pointer.\<close>

definition deref :: "world \<Rightarrow> WId \<Rightarrow> WidgetsHelperData" where
  "deref w k = QHash_value (g_widgetsHelper w) k"

definition store :: "world \<Rightarrow> WId \<Rightarrow> WidgetsHelperData \<Rightarrow> world" where
  "store w k d = w\<lparr> g_widgetsHelper := (g_widgetsHelper w)(k \<mapsto> d) \<rparr>"

section \<open>The title bar widget\<close>

definition setTitleBarWidget ::
  "build \<Rightarrow> world \<Rightarrow> FramelessWidgetsHelper \<Rightarrow> QWidget option \<Rightarrow> abort + world" where
  "setTitleBarWidget b w q widget =
     (if Q_ASSERT_fails b (widget \<noteq> None) then Inl Q_ASSERT_failed
      else if widget = None then Inr w
      else
        (case getWindowDataMutable w q of
           (w1, None) \<Rightarrow> Inr w1
         | (w1, Some data) \<Rightarrow>
             if titleBarWidget (deref w1 data) = widget then Inr w1
             else
               Inr (record_event
                      (store w1 data ((deref w1 data)\<lparr> titleBarWidget := widget \<rparr>))
                      (Emitted q ''titleBarWidgetChanged''))))"

definition getTitleBarWidget :: "world \<Rightarrow> FramelessWidgetsHelper \<Rightarrow> world \<times> QWidget option" where
  "getTitleBarWidget w q = (let (w1, d) = getWindowData w q in (w1, titleBarWidget d))"

text \<open>The public \<^verbatim>\<open>FramelessWidgetsHelper::titleBarWidget\<close> forwards to the private class.\<close>

definition titleBarWidget_public :: "world \<Rightarrow> FramelessWidgetsHelper \<Rightarrow> world \<times> QWidget option" where
  "titleBarWidget_public w q = getTitleBarWidget w q"

section \<open>Fixed-size windows\<close>

definition isWindowFixedSize :: "world \<Rightarrow> FramelessWidgetsHelper \<Rightarrow> bool" where
  "isWindowFixedSize w q =
     (case getWindow w q of
        None \<Rightarrow> False
      | Some window \<Rightarrow>
          if QWidget_windowFlags w window AND MSWindowsFixedSizeDialogHint \<noteq> 0 then True
          else
            let minSize = QWidget_minimumSize w window;
                maxSize = QWidget_maximumSize w window
            in if \<not> QSize_isEmpty minSize \<and> \<not> QSize_isEmpty maxSize \<and> minSize = maxSize then True
               else if QWidget_sizePolicy w window = QSizePolicy_of Fixed Fixed then True
               else False)"

definition setWindowFixedSize :: "build \<Rightarrow> world \<Rightarrow> FramelessWidgetsHelper \<Rightarrow> bool \<Rightarrow> world" where
  "setWindowFixedSize b w q val =
     (case getWindow w q of
        None \<Rightarrow> w
      | Some window \<Rightarrow>
          if isWindowFixedSize w q = val then w
          else
            let w1 =
                  (if val then
                     let wa = QWidget_setFixedSize w window (QWidget_size w window)
                     in QWidget_setWindowFlags wa window
                          (QWidget_windowFlags wa window OR MSWindowsFixedSizeDialogHint)
                   else
                     let wa = QWidget_setWindowFlags w window
                                (QWidget_windowFlags w window AND NOT MSWindowsFixedSizeDialogHint);
                         wb = QWidget_setMinimumSize wa window (kDefaultWindowSize b)
                     in QWidget_setMaximumSize wb window (QSize QWIDGETSIZE_MAX QWIDGETSIZE_MAX))
            in if Q_OS_WINDOWS b
               then record_event w1 (Utils_setAeroSnappingEnabled (QWidget_winId w1 window) (\<not> val))
               else w1)"

section \<open>Hit-test visible widgets\<close>

text \<open>
  \<^verbatim>\<open>visible\<close> is the compile-time constant \<^verbatim>\<open>true\<close>; the removal under
  \<^verbatim>\<open>if constexpr (!visible && exists)\<close> is discarded by the compiler and has no
  counterpart here.
\<close>

definition setHitTestVisible ::
  "build \<Rightarrow> world \<Rightarrow> FramelessWidgetsHelper \<Rightarrow> QWidget option \<Rightarrow> abort + world" where
  "setHitTestVisible b w q widget =
     (if Q_ASSERT_fails b (widget \<noteq> None) then Inl Q_ASSERT_failed
      else if widget = None then Inr w
      else
        (case getWindowDataMutable w q of
           (w1, None) \<Rightarrow> Inr w1
         | (w1, Some data) \<Rightarrow>
             let visible = True;
                 exists = (widget \<in> set (hitTestVisibleWidgets (deref w1 data)))
             in if visible \<and> \<not> exists
                then Inr (store w1 data
                            ((deref w1 data)\<lparr> hitTestVisibleWidgets :=
                                 hitTestVisibleWidgets (deref w1 data) @ [widget] \<rparr>))
                else Inr w1))"

section \<open>Attaching to the window\<close>

definition attachToWindow :: "build \<Rightarrow> world \<Rightarrow> FramelessWidgetsHelper \<Rightarrow> abort + world" where
  "attachToWindow b w q =
     (let window = getWindow w q
      in if Q_ASSERT_fails b (window \<noteq> None) then Inl Q_ASSERT_failed
         else
           (case window of
              None \<Rightarrow> Inr w
            | Some win \<Rightarrow>
                (case getWindowDataMutable w q of
                   (w1, None) \<Rightarrow> Inr w1
                 | (w1, Some data) \<Rightarrow>
                     if attached (deref w1 data) then Inr w1
                     else
                       let w2 = QWidget_setAttribute w1 win WA_DontCreateNativeAncestors;
                           w3 = QWidget_setAttribute w2 win WA_NativeWindow;
                           sysParams = ParametersOf q win;
                           w4 = store w3 data ((deref w3 data)\<lparr> params := sysParams \<rparr>);
                           w5 = store w4 data ((deref w4 data)\<lparr> attached := True \<rparr>);
                           w6 = record_event w5 (FramelessManager_addWindow sysParams)
                       in Inr (record_event w6 (QTimer_singleShot 0 q win)))))"

section \<open>Geometry\<close>

definition mapWidgetGeometryToScene ::
  "build \<Rightarrow> world \<Rightarrow> FramelessWidgetsHelper \<Rightarrow> QWidget option \<Rightarrow> abort + QRect" where
  "mapWidgetGeometryToScene b w q widget =
     (if Q_ASSERT_fails b (widget \<noteq> None) then Inl Q_ASSERT_failed
      else
        (case widget of
           None \<Rightarrow> Inr QRect_null
         | Some wid \<Rightarrow>
             (case getWindow w q of
                None \<Rightarrow> Inr QRect_null
              | Some window \<Rightarrow>
                  let originPoint = QWidget_mapTo w wid window (QPoint 0 0);
                      sz = QWidget_size w wid
                  in Inr (QRect_from originPoint sz))))"

text \<open>The test \<^verbatim>\<open>if (b) { if (b->geometry().contains(pos)) ... }\<close> on one stored button.\<close>

definition button_geometry_contains :: "world \<Rightarrow> QWidget option \<Rightarrow> QPoint \<Rightarrow> bool" where
  "button_geometry_contains w button pos =
     (case button of
        None \<Rightarrow> False
      | Some x \<Rightarrow> QRect_contains (QWidget_geometry w x) pos)"

text \<open>
  \<^verbatim>\<open>isInSystemButtons\<close> writes through the pointer \<^verbatim>\<open>button\<close>. The pointer is \<open>None\<close> when
  null and \<open>Some v\<close> when it points to a variable holding \<open>v\<close>; the result carries the
  variable's final content the same way.
\<close>

definition isInSystemButtons ::
  "build \<Rightarrow> world \<Rightarrow> FramelessWidgetsHelper \<Rightarrow> QPoint \<Rightarrow> SystemButtonType option
     \<Rightarrow> abort + (world \<times> bool \<times> SystemButtonType option)" where
  "isInSystemButtons b w q pos button =
     (if Q_ASSERT_fails b (button \<noteq> None) then Inl Q_ASSERT_failed
      else if button = None then Inr (w, False, None)
      else
        let button0 = Some Unknown;
            (w1, data) = getWindowData w q
        in if button_geometry_contains w1 (windowIconButton data) pos
             then Inr (w1, True, Some WindowIcon)
           else if button_geometry_contains w1 (contextHelpButton data) pos
             then Inr (w1, True, Some Help)
           else if button_geometry_contains w1 (minimizeButton data) pos
             then Inr (w1, True, Some Minimize)
           else if button_geometry_contains w1 (maximizeButton data) pos
             then Inr (w1, True, Some Maximize)
           else if button_geometry_contains w1 (closeButton data) pos
             then Inr (w1, True, Some Close)
           else Inr (w1, False, button0))"

text \<open>The two loops of \<^verbatim>\<open>isInTitleBarDraggableArea\<close> that shrink the region.\<close>

fun subtract_systemButtons ::
  "build \<Rightarrow> world \<Rightarrow> FramelessWidgetsHelper \<Rightarrow> QWidget option list \<Rightarrow> QRegion \<Rightarrow> abort + QRegion" where
  "subtract_systemButtons b w q [] region = Inr region"
| "subtract_systemButtons b w q (button # rest) region =
     (if button \<noteq> None then
        (case mapWidgetGeometryToScene b w q button of
           Inl e \<Rightarrow> Inl e
         | Inr r \<Rightarrow> subtract_systemButtons b w q rest (QRegion_subtracted region (QRegion_from r)))
      else subtract_systemButtons b w q rest region)"

fun subtract_hitTestVisible ::
  "build \<Rightarrow> world \<Rightarrow> FramelessWidgetsHelper \<Rightarrow> QWidget option list \<Rightarrow> QRegion \<Rightarrow> abort + QRegion" where
  "subtract_hitTestVisible b w q [] region = Inr region"
| "subtract_hitTestVisible b w q (widget # rest) region =
     (if Q_ASSERT_fails b (widget \<noteq> None) then Inl Q_ASSERT_failed
      else if widget \<noteq> None then
        (case mapWidgetGeometryToScene b w q widget of
           Inl e \<Rightarrow> Inl e
         | Inr r \<Rightarrow> subtract_hitTestVisible b w q rest (QRegion_subtracted region (QRegion_from r)))
      else subtract_hitTestVisible b w q rest region)"

definition isInTitleBarDraggableArea ::
  "build \<Rightarrow> world \<Rightarrow> FramelessWidgetsHelper \<Rightarrow> QPoint \<Rightarrow> abort + (world \<times> bool)" where
  "isInTitleBarDraggableArea b w q pos =
     (let (w1, data) = getWindowData w q
      in if titleBarWidget data = None then Inr (w1, False)
         else
           (case mapWidgetGeometryToScene b w1 q (titleBarWidget data) of
              Inl e \<Rightarrow> Inl e
            | Inr r \<Rightarrow>
                let systemButtons = [windowIconButton data, contextHelpButton data,
                                     minimizeButton data, maximizeButton data, closeButton data]
                in (case subtract_systemButtons b w1 q systemButtons (QRegion_from r) of
                      Inl e \<Rightarrow> Inl e
                    | Inr region1 \<Rightarrow>
                        (case (if hitTestVisibleWidgets data \<noteq> []
                               then subtract_hitTestVisible b w1 q (hitTestVisibleWidgets data) region1
                               else Inr region1) of
                           Inl e \<Rightarrow> Inl e
                         | Inr region2 \<Rightarrow> Inr (w1, QRegion_contains region2 pos)))))"

section \<open>System buttons\<close>

text \<open>The lambda \<^verbatim>\<open>updateButtonState\<close>, which captures \<^verbatim>\<open>state\<close>.\<close>

definition updateButtonState ::
  "build \<Rightarrow> world \<Rightarrow> ButtonState \<Rightarrow> QWidget option \<Rightarrow> abort + world" where
  "updateButtonState b w state btn =
     (if Q_ASSERT_fails b (btn \<noteq> None) then Inl Q_ASSERT_failed
      else
        (case btn of
           None \<Rightarrow> Inr w
         | Some x \<Rightarrow>
             (case state of
                Unspecified \<Rightarrow>
                  Inr (record_event (record_event w (InvokeMethod x ''setPressed'' [False]))
                         (InvokeMethod x ''setHovered'' [False]))
              | Hovered \<Rightarrow>
                  Inr (record_event (record_event w (InvokeMethod x ''setPressed'' [False]))
                         (InvokeMethod x ''setHovered'' [True]))
              | Pressed \<Rightarrow>
                  Inr (record_event (record_event w (InvokeMethod x ''setHovered'' [True]))
                         (InvokeMethod x ''setPressed'' [True]))
              | Clicked \<Rightarrow>
                  Inr (record_event
                         (record_event (record_event w (InvokeMethod x ''setPressed'' [False]))
                            (InvokeMethod x ''setHovered'' [True]))
                         (InvokeMethod x ''clicked'' [])))))"

text \<open>The \<^verbatim>\<open>switch\<close> of \<^verbatim>\<open>setSystemButtonState\<close> that picks the stored button.\<close>

definition select_widgetButton ::
  "build \<Rightarrow> WidgetsHelperData \<Rightarrow> SystemButtonType \<Rightarrow> abort + QWidget option" where
  "select_widgetButton b data button =
     (case button of
        Unknown \<Rightarrow> if Q_ASSERT_fails b False then Inl Q_ASSERT_failed else Inr None
      | WindowIcon \<Rightarrow> Inr (if windowIconButton data \<noteq> None then windowIconButton data else None)
      | Help \<Rightarrow> Inr (if contextHelpButton data \<noteq> None then contextHelpButton data else None)
      | Minimize \<Rightarrow> Inr (if minimizeButton data \<noteq> None then minimizeButton data else None)
      | Maximize \<Rightarrow> Inr (if maximizeButton data \<noteq> None then maximizeButton data else None)
      | Restore \<Rightarrow> Inr (if maximizeButton data \<noteq> None then maximizeButton data else None)
      | Close \<Rightarrow> Inr (if closeButton data \<noteq> None then closeButton data else None))"

definition setSystemButtonState ::
  "build \<Rightarrow> world \<Rightarrow> FramelessWidgetsHelper \<Rightarrow> SystemButtonType \<Rightarrow> ButtonState \<Rightarrow> abort + world" where
  "setSystemButtonState b w q button state =
     (if Q_ASSERT_fails b (button \<noteq> Unknown) then Inl Q_ASSERT_failed
      else if button = Unknown then Inr w
      else
        let (w1, data) = getWindowData w q
        in (case select_widgetButton b data button of
              Inl e \<Rightarrow> Inl e
            | Inr None \<Rightarrow> Inr w1
            | Inr (Some widgetButton) \<Rightarrow>
                (case QObject_metaObject w1 widgetButton of
                   None \<Rightarrow> Inr w1
                 | Some mo \<Rightarrow>
                     let pressedIndex = indexOfSlot mo (normalizedSignature ''setPressed(bool)'');
                         hoveredIndex = indexOfSlot mo (normalizedSignature ''setHovered(bool)'');
                         clickedIndex = indexOfSignal mo (normalizedSignature ''clicked()'')
                     in if pressedIndex \<ge> 0 \<and> hoveredIndex \<ge> 0 \<and> clickedIndex \<ge> 0
                        then updateButtonState b w1 state (Some widgetButton)
                        else Inr w1)))"

definition setSystemButton ::
  "build \<Rightarrow> world \<Rightarrow> FramelessWidgetsHelper \<Rightarrow> QWidget option \<Rightarrow> SystemButtonType \<Rightarrow> abort + world" where
  "setSystemButton b w q widget buttonType =
     (if Q_ASSERT_fails b (widget \<noteq> None) then Inl Q_ASSERT_failed
      else if Q_ASSERT_fails b (buttonType \<noteq> Unknown) then Inl Q_ASSERT_failed
      else if widget = None \<or> buttonType = Unknown then Inr w
      else
        (case getWindowDataMutable w q of
           (w1, None) \<Rightarrow> Inr w1
         | (w1, Some data) \<Rightarrow>
             (case buttonType of
                Unknown \<Rightarrow> if Q_ASSERT_fails b False then Inl Q_ASSERT_failed else Inr w1
              | WindowIcon \<Rightarrow> Inr (store w1 data ((deref w1 data)\<lparr> windowIconButton := widget \<rparr>))
              | Help \<Rightarrow> Inr (store w1 data ((deref w1 data)\<lparr> contextHelpButton := widget \<rparr>))
              | Minimize \<Rightarrow> Inr (store w1 data ((deref w1 data)\<lparr> minimizeButton := widget \<rparr>))
              | Maximize \<Rightarrow> Inr (store w1 data ((deref w1 data)\<lparr> maximizeButton := widget \<rparr>))
              | Restore \<Rightarrow> Inr (store w1 data ((deref w1 data)\<lparr> maximizeButton := widget \<rparr>))
              | Close \<Rightarrow> Inr (store w1 data ((deref w1 data)\<lparr> closeButton := widget \<rparr>)))))"

section \<open>Window actions\<close>

definition moveWindowToDesktopCenter :: "world \<Rightarrow> FramelessWidgetsHelper \<Rightarrow> world" where
  "moveWindowToDesktopCenter w q =
     (case getWindow w q of
        None \<Rightarrow> w
      | Some window \<Rightarrow> record_event w (Utils_moveWindowToDesktopCenter window True))"

definition QWidget_isMinimized :: "world \<Rightarrow> QWidget \<Rightarrow> bool" where
  "QWidget_isMinimized w x = (QWidget_windowState w x AND WindowMinimized \<noteq> 0)"

definition bringWindowToFront :: "world \<Rightarrow> FramelessWidgetsHelper \<Rightarrow> world" where
  "bringWindowToFront w q =
     (case getWindow w q of
        None \<Rightarrow> w
      | Some window \<Rightarrow>
          let w1 = (if QWidget_isHidden w window then QWidget_show w window else w);
              w2 = (if QWidget_isMinimized w1 window
                    then QWidget_setWindowState w1 window
                           (QWidget_windowState w1 window AND NOT WindowMinimized)
                    else w1);
              w3 = record_event w2 (QWidget_raise window)
          in record_event w3 (QWidget_activateWindow window))"

definition showSystemMenu :: "build \<Rightarrow> world \<Rightarrow> FramelessWidgetsHelper \<Rightarrow> QPoint \<Rightarrow> world" where
  "showSystemMenu b w q pos =
     (if Q_OS_WINDOWS b then
        (case getWindow w q of
           None \<Rightarrow> w
         | Some window \<Rightarrow>
             let globalPos = QWidget_mapToGlobal w window pos;
                 nativePos = nativePosition w window globalPos
             in record_event w (Utils_showSystemMenu (QWidget_winId w window) nativePos False q))
      else w)"

definition windowStartSystemMove2 :: "world \<Rightarrow> FramelessWidgetsHelper \<Rightarrow> QPoint \<Rightarrow> world" where
  "windowStartSystemMove2 w q pos =
     (case getWindow w q of
        None \<Rightarrow> w
      | Some window \<Rightarrow> record_event w (Utils_startSystemMove (QWidget_windowHandle w window) pos))"

definition windowStartSystemResize2 ::
  "world \<Rightarrow> FramelessWidgetsHelper \<Rightarrow> 32 word \<Rightarrow> QPoint \<Rightarrow> world" where
  "windowStartSystemResize2 w q edges pos =
     (case getWindow w q of
        None \<Rightarrow> w
      | Some window \<Rightarrow>
          if edges = 0 then w
          else record_event w (Utils_startSystemResize (QWidget_windowHandle w window) edges pos))"

section \<open>The public class\<close>

text \<open>
  The member functions of the public class \<^verbatim>\<open>FramelessWidgetsHelper\<close> forward to the
  private class. Those that take a widget repeat the private function's assertion and
  null guard before forwarding; \<^verbatim>\<open>windowStartSystemResize2\<close> repeats the test for no
  edges.
\<close>

definition isWindowFixedSize_public :: "world \<Rightarrow> FramelessWidgetsHelper \<Rightarrow> bool" where
  "isWindowFixedSize_public w q = isWindowFixedSize w q"

definition setTitleBarWidget_public ::
  "build \<Rightarrow> world \<Rightarrow> FramelessWidgetsHelper \<Rightarrow> QWidget option \<Rightarrow> abort + world" where
  "setTitleBarWidget_public b w q widget =
     (if Q_ASSERT_fails b (widget \<noteq> None) then Inl Q_ASSERT_failed
      else if widget = None then Inr w
      else setTitleBarWidget b w q widget)"

definition setSystemButton_public ::
  "build \<Rightarrow> world \<Rightarrow> FramelessWidgetsHelper \<Rightarrow> QWidget option \<Rightarrow> SystemButtonType \<Rightarrow> abort + world" where
  "setSystemButton_public b w q widget buttonType =
     (if Q_ASSERT_fails b (widget \<noteq> None) then Inl Q_ASSERT_failed
      else if Q_ASSERT_fails b (buttonType \<noteq> Unknown) then Inl Q_ASSERT_failed
      else if widget = None \<or> buttonType = Unknown then Inr w
      else setSystemButton b w q widget buttonType)"

definition setHitTestVisible_public ::
  "build \<Rightarrow> world \<Rightarrow> FramelessWidgetsHelper \<Rightarrow> QWidget option \<Rightarrow> abort + world" where
  "setHitTestVisible_public b w q widget =
     (if Q_ASSERT_fails b (widget \<noteq> None) then Inl Q_ASSERT_failed
      else if widget = None then Inr w
      else setHitTestVisible b w q widget)"

definition showSystemMenu_public :: "build \<Rightarrow> world \<Rightarrow> FramelessWidgetsHelper \<Rightarrow> QPoint \<Rightarrow> world" where
  "showSystemMenu_public b w q pos = showSystemMenu b w q pos"

definition windowStartSystemMove2_public :: "world \<Rightarrow> FramelessWidgetsHelper \<Rightarrow> QPoint \<Rightarrow> world" where
  "windowStartSystemMove2_public w q pos = windowStartSystemMove2 w q pos"

definition windowStartSystemResize2_public ::
  "world \<Rightarrow> FramelessWidgetsHelper \<Rightarrow> 32 word \<Rightarrow> QPoint \<Rightarrow> world" where
  "windowStartSystemResize2_public w q edges pos =
     (if edges = 0 then w else windowStartSystemResize2 w q edges pos)"

definition moveWindowToDesktopCenter_public :: "world \<Rightarrow> FramelessWidgetsHelper \<Rightarrow> world" where
  "moveWindowToDesktopCenter_public w q = moveWindowToDesktopCenter w q"

definition bringWindowToFront_public :: "world \<Rightarrow> FramelessWidgetsHelper \<Rightarrow> world" where
  "bringWindowToFront_public w q = bringWindowToFront w q"

definition setWindowFixedSize_public ::
  "build \<Rightarrow> world \<Rightarrow> FramelessWidgetsHelper \<Rightarrow> bool \<Rightarrow> world" where
  "setWindowFixedSize_public b w q val = setWindowFixedSize b w q val"

section \<open>The module as a whole\<close>

text \<open>
  One call of a member function of \<^verbatim>\<open>FramelessWidgetsHelperPrivate\<close>, and the state it
  leaves behind. A run of the module is a sequence of such calls, each by some helper; it
  ends when an assertion aborts the process.
\<close>

datatype call =
    Call_isWindowFixedSize
  | Call_setWindowFixedSize bool
  | Call_setTitleBarWidget "QWidget option"
  | Call_getTitleBarWidget
  | Call_setHitTestVisible "QWidget option"
  | Call_attachToWindow
  | Call_mapWidgetGeometryToScene "QWidget option"
  | Call_isInSystemButtons QPoint "SystemButtonType option"
  | Call_isInTitleBarDraggableArea QPoint
  | Call_setSystemButtonState SystemButtonType ButtonState
  | Call_moveWindowToDesktopCenter
  | Call_bringWindowToFront
  | Call_showSystemMenu QPoint
  | Call_windowStartSystemMove2 QPoint
  | Call_windowStartSystemResize2 "32 word" QPoint
  | Call_setSystemButton "QWidget option" SystemButtonType

fun perform :: "build \<Rightarrow> world \<Rightarrow> FramelessWidgetsHelper \<Rightarrow> call \<Rightarrow> abort + world" where
  "perform b w q Call_isWindowFixedSize = Inr w"
| "perform b w q (Call_setWindowFixedSize v) = Inr (setWindowFixedSize b w q v)"
| "perform b w q (Call_setTitleBarWidget widget) = setTitleBarWidget b w q widget"
| "perform b w q Call_getTitleBarWidget = Inr (fst (getTitleBarWidget w q))"
| "perform b w q (Call_setHitTestVisible widget) = setHitTestVisible b w q widget"
| "perform b w q Call_attachToWindow = attachToWindow b w q"
| "perform b w q (Call_mapWidgetGeometryToScene widget) =
     (case mapWidgetGeometryToScene b w q widget of Inl e \<Rightarrow> Inl e | Inr _ \<Rightarrow> Inr w)"
| "perform b w q (Call_isInSystemButtons pos button) =
     (case isInSystemButtons b w q pos button of Inl e \<Rightarrow> Inl e | Inr r \<Rightarrow> Inr (fst r))"
| "perform b w q (Call_isInTitleBarDraggableArea pos) =
     (case isInTitleBarDraggableArea b w q pos of Inl e \<Rightarrow> Inl e | Inr r \<Rightarrow> Inr (fst r))"
| "perform b w q (Call_setSystemButtonState button state) = setSystemButtonState b w q button state"
| "perform b w q Call_moveWindowToDesktopCenter = Inr (moveWindowToDesktopCenter w q)"
| "perform b w q Call_bringWindowToFront = Inr (bringWindowToFront w q)"
| "perform b w q (Call_showSystemMenu pos) = Inr (showSystemMenu b w q pos)"
| "perform b w q (Call_windowStartSystemMove2 pos) = Inr (windowStartSystemMove2 w q pos)"
| "perform b w q (Call_windowStartSystemResize2 edges pos) =
     Inr (windowStartSystemResize2 w q edges pos)"
| "perform b w q (Call_setSystemButton widget buttonType) = setSystemButton b w q widget buttonType"

fun run :: "build \<Rightarrow> world \<Rightarrow> (FramelessWidgetsHelper \<times> call) list \<Rightarrow> abort + world" where
  "run b w [] = Inr w"
| "run b w ((q, c) # rest) =
     (case perform b w q c of Inl e \<Rightarrow> Inl e | Inr w1 \<Rightarrow> run b w1 rest)"

section \<open>The mutex\<close>












section \<open>What the specification's words mean\<close>

text \<open>
  The hit-test visible list of the window with native id \<open>k\<close> (empty when the hash has no
  entry for it).
\<close>

definition hitTestVisible_of :: "world \<Rightarrow> WId \<Rightarrow> QWidget option list" where
  "hitTestVisible_of w k = hitTestVisibleWidgets (deref w k)"

text \<open>
  A point lies inside the rectangle with the given origin and size: the plain reading,
  with the origin inside and the far edges outside.
\<close>

definition lies_inside :: "QPoint \<Rightarrow> QSize \<Rightarrow> QPoint \<Rightarrow> bool" where
  "lies_inside origin s p =
     (xp origin \<le> xp p \<and> xp p < xp origin + wd s \<and> yp origin \<le> yp p \<and> yp p < yp origin + ht s)"

text \<open>A point lies inside a widget's geometry mapped to the coordinates of the window.\<close>

definition in_scene_geometry :: "world \<Rightarrow> QWidget \<Rightarrow> QWidget \<Rightarrow> QPoint \<Rightarrow> bool" where
  "in_scene_geometry w window x p =
     lies_inside (QWidget_mapTo w x window (QPoint 0 0)) (QWidget_size w x) p"

text \<open>
  The draggable area as the specification words it: there is a window with a title bar
  widget, the point lies inside the title bar, and inside no registered system button and
  no hit-test visible widget.
\<close>

definition draggable_spec :: "world \<Rightarrow> FramelessWidgetsHelper \<Rightarrow> QPoint \<Rightarrow> bool" where
  "draggable_spec w q pos =
     (case getWindow w q of
        None \<Rightarrow> False
      | Some window \<Rightarrow>
          let d = deref w (QWidget_winId w window)
          in (case titleBarWidget d of
                None \<Rightarrow> False
              | Some t \<Rightarrow>
                  in_scene_geometry w window t pos
                  \<and> (\<forall>button \<in> set [windowIconButton d, contextHelpButton d, minimizeButton d,
                                      maximizeButton d, closeButton d].
                       case button of None \<Rightarrow> True | Some x \<Rightarrow> \<not> in_scene_geometry w window x pos)
                  \<and> (\<forall>widget \<in> set (hitTestVisibleWidgets d).
                       case widget of None \<Rightarrow> True | Some x \<Rightarrow> \<not> in_scene_geometry w window x pos)))"

text \<open>
  The button a button type is registered under: the specification's reading of
  "registered button", with Maximize and Restore sharing one field.
\<close>

fun registered_button :: "WidgetsHelperData \<Rightarrow> SystemButtonType \<Rightarrow> QWidget option" where
  "registered_button d Unknown = None"
| "registered_button d WindowIcon = windowIconButton d"
| "registered_button d Help = contextHelpButton d"
| "registered_button d Minimize = minimizeButton d"
| "registered_button d Maximize = maximizeButton d"
| "registered_button d Restore = maximizeButton d"
| "registered_button d Close = closeButton d"

text \<open>A widget exposes the button interface: the two slots and the signal.\<close>

definition exposes_button_interface :: "QMetaObject \<Rightarrow> bool" where
  "exposes_button_interface mo =
     (''setPressed(bool)'' \<in> set (slotSignatures mo)
      \<and> ''setHovered(bool)'' \<in> set (slotSignatures mo)
      \<and> ''clicked()'' \<in> set (signalSignatures mo))"

text \<open>The invocations the specification lists for each button state, in order.\<close>

fun invocations_spec :: "QWidget \<Rightarrow> ButtonState \<Rightarrow> event list" where
  "invocations_spec x Unspecified =
     [InvokeMethod x ''setPressed'' [False], InvokeMethod x ''setHovered'' [False]]"
| "invocations_spec x Hovered =
     [InvokeMethod x ''setPressed'' [False], InvokeMethod x ''setHovered'' [True]]"
| "invocations_spec x Pressed =
     [InvokeMethod x ''setHovered'' [True], InvokeMethod x ''setPressed'' [True]]"
| "invocations_spec x Clicked =
     [InvokeMethod x ''setPressed'' [False], InvokeMethod x ''setHovered'' [True],
      InvokeMethod x ''clicked'' []]"

text \<open>
  The first button, in the order window icon, help, minimize, maximize, close, that is
  registered and whose geometry contains the point.
\<close>

definition first_button_at :: "world \<Rightarrow> WidgetsHelperData \<Rightarrow> QPoint \<Rightarrow> SystemButtonType option" where
  "first_button_at w d pos =
     map_option snd
       (find (\<lambda>(button, t). button_geometry_contains w button pos)
          [(windowIconButton d, WindowIcon), (contextHelpButton d, Help),
           (minimizeButton d, Minimize), (maximizeButton d, Maximize), (closeButton d, Close)])"

section \<open>A concrete window\<close>

text \<open>
  A top-level window (widget 1, native id 101, 800 by 600) with a title bar (widget 2)
  across its top that holds a menu (widget 4), a maximize button (widget 5) and a close
  button (widget 3). The two buttons expose the button interface. Nothing is registered
  yet. \<open>helper0\<close> is a helper whose parent is the window; \<open>orphan\<close> is a helper
  without a parent, for which no window resolves.
\<close>

definition world0 :: world where
  "world0 =
     \<lparr> g_widgetsHelper = (\<lambda>_. None),
       QWidget_nativeParentWidget = (\<lambda>_. None),
       QWidget_window = (\<lambda>_. 1),
       QWidget_winId = (\<lambda>x. 100 + x),
       QWidget_windowHandle = (\<lambda>x. if x = 1 then Some 7 else None),
       QWidget_windowFlags = (\<lambda>_. 0x1),
       QWidget_windowState = (\<lambda>_. 0),
       QWidget_geometry =
         (\<lambda>x. if x = 1 then QRect 100 100 899 699
              else if x = 2 then QRect 0 0 799 29
              else if x = 3 then QRect 770 0 799 29
              else if x = 4 then QRect 10 0 109 29
              else if x = 5 then QRect 740 0 779 29
              else QRect_null),
       QWidget_minimumSize = (\<lambda>_. QSize 0 0),
       QWidget_maximumSize = (\<lambda>_. QSize QWIDGETSIZE_MAX QWIDGETSIZE_MAX),
       QWidget_sizePolicy = (\<lambda>_. QSizePolicy_of Preferred Preferred),
       QWidget_isHidden = (\<lambda>_. False),
       QWidget_attributes = (\<lambda>_. []),
       QWidget_mapTo =
         (\<lambda>x ancestor p.
            if x = ancestor then p
            else if x = 3 then QPoint (xp p + 770) (yp p)
            else if x = 4 then QPoint (xp p + 10) (yp p)
            else if x = 5 then QPoint (xp p + 740) (yp p)
            else p),
       QWidget_mapToGlobal = (\<lambda>x p. QPoint (xp p + 100) (yp p + 100)),
       nativePosition = (\<lambda>x p. p),
       QObject_metaObject =
         (\<lambda>x. if x = 3 \<or> x = 5
              then Some (QMetaObject [''setHovered(bool)'', ''setPressed(bool)''] [''clicked()''])
              else Some (QMetaObject [] [])),
       events = [] \<rparr>"

definition helper0 :: FramelessWidgetsHelper where
  "helper0 = FramelessWidgetsHelper 0 (Some (WidgetObject 1))"

definition orphan :: FramelessWidgetsHelper where
  "orphan = FramelessWidgetsHelper 1 None"

definition release_build :: build where
  "release_build = \<lparr> assertions = False, Q_OS_WINDOWS = True, kDefaultWindowSize = QSize 160 160 \<rparr>"

definition debug_build :: build where
  "debug_build = \<lparr> assertions = True, Q_OS_WINDOWS = True, kDefaultWindowSize = QSize 160 160 \<rparr>"

text \<open>The entry of the concrete window once its title bar, buttons and menu are registered.\<close>

definition data1 :: WidgetsHelperData where
  "data1 =
     \<lparr> attached = True, params = ParametersOf helper0 1, titleBarWidget = Some 2,
       hitTestVisibleWidgets = [Some 4], windowIconButton = None, contextHelpButton = None,
       minimizeButton = None, maximizeButton = Some 5, closeButton = Some 3 \<rparr>"

text \<open>The entry of a second window, with native id 111.\<close>

definition data2 :: WidgetsHelperData where
  "data2 =
     \<lparr> attached = True, params = ParametersOf (FramelessWidgetsHelper 2 (Some (WidgetObject 11))) 11,
       titleBarWidget = Some 12, hitTestVisibleWidgets = [], windowIconButton = Some 14,
       contextHelpButton = None, minimizeButton = None, maximizeButton = None,
       closeButton = Some 13 \<rparr>"

definition world1 :: world where
  "world1 =
     world0\<lparr> g_widgetsHelper :=
               (\<lambda>k. if k = 101 then Some data1 else if k = 111 then Some data2 else None) \<rparr>"

text \<open>The same window with the size policy fixed in both directions.\<close>

definition world_fixedPolicy :: world where
  "world_fixedPolicy = world0\<lparr> QWidget_sizePolicy := (\<lambda>_. QSizePolicy_of Fixed Fixed) \<rparr>"

text \<open>
  The same widgets with the title bar (widget 2) a native widget placed 50 below the top
  of the window: the close button's native parent widget is the title bar, its top-level
  window is still widget 1, and \<open>helper_native\<close> is a helper whose parent is the close
  button.
\<close>

definition world_native :: world where
  "world_native =
     world1\<lparr> QWidget_nativeParentWidget := (\<lambda>x. if x = 3 then Some 2 else None),
             QWidget_mapTo :=
               (\<lambda>x ancestor p.
                  if x = 3 \<and> ancestor = 2 then QPoint (xp p + 770) (yp p)
                  else if x = 3 \<and> ancestor = 1 then QPoint (xp p + 770) (yp p + 50)
                  else p) \<rparr>"

definition helper_native :: FramelessWidgetsHelper where
  "helper_native = FramelessWidgetsHelper 3 (Some (WidgetObject 3))"

section \<open>Basic facts\<close>

lemma getWindow_update [simp]:
  "getWindow (w\<lparr> g_widgetsHelper := m \<rparr>) q = getWindow w q"
  "getWindow (w\<lparr> events := e \<rparr>) q = getWindow w q"
  by (simp_all add: getWindow_def split: option.splits)

lemma getWindowData_resolved:
  "getWindow w q = Some window \<Longrightarrow>
   getWindowData w q =
     ((if g_widgetsHelper w (QWidget_winId w window) = None
       then w\<lparr> g_widgetsHelper :=
                (g_widgetsHelper w)(QWidget_winId w window \<mapsto> WidgetsHelperData_default) \<rparr>
       else w), deref w (QWidget_winId w window))"
  by (simp add: getWindowData_def QHash_value_def deref_def Let_def)

lemma getWindowData_null:
  "getWindow w q = None \<Longrightarrow> getWindowData w q = (w, WidgetsHelperData_default)"
  by (simp add: getWindowData_def)

lemma getWindowDataMutable_resolved:
  "getWindow w q = Some window \<Longrightarrow>
   getWindowDataMutable w q =
     ((if g_widgetsHelper w (QWidget_winId w window) = None
       then w\<lparr> g_widgetsHelper :=
                (g_widgetsHelper w)(QWidget_winId w window \<mapsto> WidgetsHelperData_default) \<rparr>
       else w), Some (QWidget_winId w window))"
  by (simp add: getWindowDataMutable_def Let_def)

lemma getWindowDataMutable_null:
  "getWindow w q = None \<Longrightarrow> getWindowDataMutable w q = (w, None)"
  by (simp add: getWindowDataMutable_def)

lemma deref_inserted_default:
  "g_widgetsHelper w k = None \<Longrightarrow>
   deref (w\<lparr> g_widgetsHelper := (g_widgetsHelper w)(k \<mapsto> WidgetsHelperData_default) \<rparr>) k' = deref w k'"
  by (simp add: deref_def QHash_value_def)

text \<open>
  Each public member function behaves as the private one it forwards to, so what is proved
  below of the private functions holds of the public ones.
\<close>

lemma public_forwards:
  "isWindowFixedSize_public w q = isWindowFixedSize w q"
  "setTitleBarWidget_public b w q widget = setTitleBarWidget b w q widget"
  "setSystemButton_public b w q widget buttonType = setSystemButton b w q widget buttonType"
  "setHitTestVisible_public b w q widget = setHitTestVisible b w q widget"
  "showSystemMenu_public b w q pos = showSystemMenu b w q pos"
  "windowStartSystemMove2_public w q pos = windowStartSystemMove2 w q pos"
  "windowStartSystemResize2_public w q edges pos = windowStartSystemResize2 w q edges pos"
  "moveWindowToDesktopCenter_public w q = moveWindowToDesktopCenter w q"
  "bringWindowToFront_public w q = bringWindowToFront w q"
  "setWindowFixedSize_public b w q val = setWindowFixedSize b w q val"
  "titleBarWidget_public w q = getTitleBarWidget w q"
  by (simp_all add: isWindowFixedSize_public_def setTitleBarWidget_public_def
      setSystemButton_public_def setHitTestVisible_public_def showSystemMenu_public_def
      windowStartSystemMove2_public_def windowStartSystemResize2_public_def
      moveWindowToDesktopCenter_public_def bringWindowToFront_public_def
      setWindowFixedSize_public_def titleBarWidget_public_def
      setTitleBarWidget_def setSystemButton_def setHitTestVisible_def
      windowStartSystemResize2_def split: option.splits)

text \<open>Facts about the concrete window.\<close>

lemma world0_fields:
  "g_widgetsHelper world0 = (\<lambda>_. None)"
  "QWidget_nativeParentWidget world0 = (\<lambda>_. None)"
  "QWidget_window world0 = (\<lambda>_. 1)"
  "QWidget_winId world0 = (\<lambda>x. 100 + x)"
  "QWidget_windowHandle world0 = (\<lambda>x. if x = 1 then Some 7 else None)"
  "QWidget_windowFlags world0 = (\<lambda>_. 0x1)"
  "QWidget_windowState world0 = (\<lambda>_. 0)"
  "QWidget_minimumSize world0 = (\<lambda>_. QSize 0 0)"
  "QWidget_maximumSize world0 = (\<lambda>_. QSize QWIDGETSIZE_MAX QWIDGETSIZE_MAX)"
  "QWidget_sizePolicy world0 = (\<lambda>_. QSizePolicy_of Preferred Preferred)"
  "QWidget_isHidden world0 = (\<lambda>_. False)"
  "events world0 = []"
  by (simp_all add: world0_def)

lemma world0_geometry:
  "QWidget_geometry world0 2 = QRect 0 0 799 29"
  "QWidget_geometry world0 3 = QRect 770 0 799 29"
  "QWidget_geometry world0 4 = QRect 10 0 109 29"
  "QWidget_geometry world0 5 = QRect 740 0 779 29"
  "QWidget_mapTo world0 2 (Suc 0) p = p"
  "QWidget_mapTo world0 3 (Suc 0) p = QPoint (xp p + 770) (yp p)"
  "QWidget_mapTo world0 4 (Suc 0) p = QPoint (xp p + 10) (yp p)"
  "QWidget_mapTo world0 5 (Suc 0) p = QPoint (xp p + 740) (yp p)"
  "QObject_metaObject world0 5 =
     Some (QMetaObject [''setHovered(bool)'', ''setPressed(bool)''] [''clicked()''])"
  by (simp_all add: world0_def)

lemma world1_fields:
  "g_widgetsHelper world1 =
     (\<lambda>k. if k = 101 then Some data1 else if k = 111 then Some data2 else None)"
  "QWidget_winId world1 = QWidget_winId world0"
  "QWidget_geometry world1 = QWidget_geometry world0"
  "QWidget_mapTo world1 = QWidget_mapTo world0"
  "QObject_metaObject world1 = QObject_metaObject world0"
  "events world1 = []"
  by (simp_all add: world1_def world0_def)

lemma getWindow_world0_helper0: "getWindow world0 helper0 = Some 1"
  by (simp add: getWindow_def world0_fields helper0_def)

lemma getWindow_world1_helper0: "getWindow world1 helper0 = Some 1"
  by (simp add: getWindow_def world1_def world0_fields helper0_def)

lemma getWindow_orphan: "getWindow w orphan = None"
  by (simp add: getWindow_def orphan_def)

lemma deref_world1: "deref world1 101 = data1"
  by (simp add: deref_def QHash_value_def world1_fields)

lemma deref_world0: "deref world0 k = WidgetsHelperData_default"
  by (simp add: deref_def QHash_value_def world0_fields)

section \<open>The claims\<close>

text \<open>
  Claim C10. \<^verbatim>\<open>setTitleBarWidget\<close> emits \<^verbatim>\<open>titleBarWidgetChanged\<close> exactly when the stored
  value changes. For a non-null widget and a helper whose window resolves: if
  \<^verbatim>\<open>titleBarWidget()\<close> already returns the argument, the call leaves the whole state as it
  is, trace included; otherwise the call returns, appends exactly one
  \<^verbatim>\<open>titleBarWidgetChanged\<close> to the trace, stores the widget in the window's entry, and
  \<^verbatim>\<open>titleBarWidget()\<close> returns it afterwards.
\<close>

theorem setTitleBarWidget_signal:
  assumes "getWindow w q = Some window"
  shows "(snd (titleBarWidget_public w q) = Some widget \<longrightarrow>
            setTitleBarWidget b w q (Some widget) = Inr w)
       \<and> (snd (titleBarWidget_public w q) \<noteq> Some widget \<longrightarrow>
            (\<exists>w'. setTitleBarWidget b w q (Some widget) = Inr w'
                 \<and> events w' = events w @ [Emitted q ''titleBarWidgetChanged'']
                 \<and> titleBarWidget (deref w' (QWidget_winId w window)) = Some widget
                 \<and> snd (titleBarWidget_public w' q) = Some widget))"
  using assms
  by (auto simp: titleBarWidget_public_def getTitleBarWidget_def getWindowData_resolved
      setTitleBarWidget_def getWindowDataMutable_resolved Q_ASSERT_fails_def deref_def store_def
      record_event_def QHash_value_def WidgetsHelperData_default_def
      split: option.splits)

theorem setTitleBarWidget_signal_witness:
  "getWindow world0 helper0 = Some 1
   \<and> snd (titleBarWidget_public world0 helper0) \<noteq> Some 2
   \<and> (\<exists>w'. setTitleBarWidget debug_build world0 helper0 (Some 2) = Inr w'
          \<and> events w' = [Emitted helper0 ''titleBarWidgetChanged'']
          \<and> snd (titleBarWidget_public w' helper0) = Some 2)
   \<and> snd (titleBarWidget_public world1 helper0) = Some 2
   \<and> setTitleBarWidget debug_build world1 helper0 (Some 2) = Inr world1"
proof -
  have a: "snd (titleBarWidget_public world0 helper0) \<noteq> Some 2"
    by (simp add: titleBarWidget_public_def getTitleBarWidget_def
        getWindowData_resolved [OF getWindow_world0_helper0] deref_world0
        WidgetsHelperData_default_def)
  have b: "snd (titleBarWidget_public world1 helper0) = Some 2"
    by (simp add: titleBarWidget_public_def getTitleBarWidget_def
        getWindowData_resolved [OF getWindow_world1_helper0] world1_fields world0_fields
        deref_world1 data1_def)
  show ?thesis
    using setTitleBarWidget_signal [OF getWindow_world0_helper0, of 2 debug_build]
      setTitleBarWidget_signal [OF getWindow_world1_helper0, of 2 debug_build]
      a b getWindow_world0_helper0
    by (auto simp: world0_fields)
qed

lemma getWindowData_snd:
  "getWindow w q = Some window \<Longrightarrow> snd (getWindowData w q) = deref w (QWidget_winId w window)"
  by (simp add: getWindowData_resolved)

lemma getWindowData_deref [simp]: "deref (fst (getWindowData w q)) k = deref w k"
  by (cases "getWindow w q")
     (auto simp: getWindowData_null getWindowData_resolved deref_def QHash_value_def)

lemma getWindowData_frame:
  "getWindow w q = Some window \<Longrightarrow> k \<noteq> QWidget_winId w window \<Longrightarrow>
   g_widgetsHelper (fst (getWindowData w q)) k = g_widgetsHelper w k"
  by (simp add: getWindowData_resolved)

lemma getWindowDataMutable_fst: "fst (getWindowDataMutable w q) = fst (getWindowData w q)"
  by (cases "getWindow w q")
     (simp_all add: getWindowData_null getWindowData_resolved getWindowDataMutable_null
        getWindowDataMutable_resolved)

lemma deref_store: "deref (store w k d) k' = (if k' = k then d else deref w k')"
  by (simp add: deref_def store_def QHash_value_def)

lemma deref_other_fields [simp]:
  "deref (w\<lparr> events := e \<rparr>) k = deref w k"
  "deref (w\<lparr> QWidget_attributes := a \<rparr>) k = deref w k"
  "deref (w\<lparr> QWidget_geometry := g \<rparr>) k = deref w k"
  "deref (w\<lparr> QWidget_minimumSize := mn \<rparr>) k = deref w k"
  "deref (w\<lparr> QWidget_maximumSize := mx \<rparr>) k = deref w k"
  "deref (w\<lparr> QWidget_windowFlags := f \<rparr>) k = deref w k"
  "deref (w\<lparr> QWidget_windowState := st \<rparr>) k = deref w k"
  "deref (w\<lparr> QWidget_isHidden := h \<rparr>) k = deref w k"
  by (simp_all add: deref_def)

lemma hash_setWindowFixedSize [simp]:
  "g_widgetsHelper (setWindowFixedSize b w q v) = g_widgetsHelper w"
  by (simp add: setWindowFixedSize_def QWidget_setFixedSize_def QWidget_setWindowFlags_def
      QWidget_setMinimumSize_def QWidget_setMaximumSize_def QWidget_resize_def record_event_def
      Let_def split: option.splits)

lemma hash_window_actions [simp]:
  "g_widgetsHelper (moveWindowToDesktopCenter w q) = g_widgetsHelper w"
  "g_widgetsHelper (bringWindowToFront w q) = g_widgetsHelper w"
  "g_widgetsHelper (showSystemMenu b w q pos) = g_widgetsHelper w"
  "g_widgetsHelper (windowStartSystemMove2 w q pos) = g_widgetsHelper w"
  "g_widgetsHelper (windowStartSystemResize2 w q edges pos) = g_widgetsHelper w"
  by (simp_all add: moveWindowToDesktopCenter_def bringWindowToFront_def showSystemMenu_def
      windowStartSystemMove2_def windowStartSystemResize2_def record_event_def QWidget_show_def
      QWidget_setWindowState_def Let_def split: option.splits)

lemmas mutable_unfold =
  getWindowDataMutable_null getWindowDataMutable_resolved Q_ASSERT_fails_def store_def deref_def
  QHash_value_def record_event_def QWidget_setAttribute_def Let_def

lemma frame_setTitleBarWidget:
  "getWindow w q = Some window \<Longrightarrow> k \<noteq> QWidget_winId w window \<Longrightarrow>
   setTitleBarWidget b w q widget = Inr w' \<Longrightarrow> g_widgetsHelper w' k = g_widgetsHelper w k"
  by (auto simp: setTitleBarWidget_def mutable_unfold split: if_splits)

lemma frame_setHitTestVisible:
  "getWindow w q = Some window \<Longrightarrow> k \<noteq> QWidget_winId w window \<Longrightarrow>
   setHitTestVisible b w q widget = Inr w' \<Longrightarrow> g_widgetsHelper w' k = g_widgetsHelper w k"
  by (auto simp: setHitTestVisible_def mutable_unfold split: if_splits)

lemma frame_setSystemButton:
  "getWindow w q = Some window \<Longrightarrow> k \<noteq> QWidget_winId w window \<Longrightarrow>
   setSystemButton b w q widget buttonType = Inr w' \<Longrightarrow> g_widgetsHelper w' k = g_widgetsHelper w k"
  by (cases buttonType) (auto simp: setSystemButton_def mutable_unfold split: if_splits)

lemma frame_attachToWindow:
  "getWindow w q = Some window \<Longrightarrow> k \<noteq> QWidget_winId w window \<Longrightarrow>
   attachToWindow b w q = Inr w' \<Longrightarrow> g_widgetsHelper w' k = g_widgetsHelper w k"
  by (auto simp: attachToWindow_def mutable_unfold split: if_splits)

lemma returns_with_window:
  assumes "getWindow w q = Some window"
  shows "\<exists>w'. setTitleBarWidget b w q (Some x) = Inr w'"
    and "\<exists>w'. setHitTestVisible b w q (Some x) = Inr w'"
    and "buttonType \<noteq> Unknown \<Longrightarrow> \<exists>w'. setSystemButton b w q (Some x) buttonType = Inr w'"
    and "\<exists>w'. attachToWindow b w q = Inr w'"
  using assms
  by (cases buttonType;
      auto simp: setTitleBarWidget_def setHitTestVisible_def setSystemButton_def attachToWindow_def
        mutable_unfold)+

text \<open>
  Claim C5. The helper state is one hash keyed by the native window id, and the mutating
  operations are framed by window. A helper whose window resolves reads the entry stored
  under that window's id. Whatever \<^verbatim>\<open>setTitleBarWidget\<close>, \<^verbatim>\<open>setSystemButton\<close>,
  \<^verbatim>\<open>setHitTestVisible\<close> and \<^verbatim>\<open>attachToWindow\<close> are given, if they return then the entry
  under every other id \<open>k\<close> is as before (absent entries stay absent); and with a non-null
  widget (and a button type other than Unknown) they do return.
\<close>

theorem mutators_touch_only_own_entry:
  assumes "getWindow w q = Some window" and "k \<noteq> QWidget_winId w window"
  shows "snd (getWindowData w q) = deref w (QWidget_winId w window)
       \<and> (\<forall>w'. setTitleBarWidget b w q widget = Inr w' \<longrightarrow> g_widgetsHelper w' k = g_widgetsHelper w k)
       \<and> (\<forall>w'. setSystemButton b w q widget buttonType = Inr w' \<longrightarrow>
                  g_widgetsHelper w' k = g_widgetsHelper w k)
       \<and> (\<forall>w'. setHitTestVisible b w q widget = Inr w' \<longrightarrow> g_widgetsHelper w' k = g_widgetsHelper w k)
       \<and> (\<forall>w'. attachToWindow b w q = Inr w' \<longrightarrow> g_widgetsHelper w' k = g_widgetsHelper w k)
       \<and> (widget \<noteq> None \<longrightarrow> (\<exists>w'. setTitleBarWidget b w q widget = Inr w'))
       \<and> (widget \<noteq> None \<and> buttonType \<noteq> Unknown \<longrightarrow>
            (\<exists>w'. setSystemButton b w q widget buttonType = Inr w'))
       \<and> (widget \<noteq> None \<longrightarrow> (\<exists>w'. setHitTestVisible b w q widget = Inr w'))
       \<and> (\<exists>w'. attachToWindow b w q = Inr w')"
  using assms frame_setTitleBarWidget [OF assms] frame_setSystemButton [OF assms]
    frame_setHitTestVisible [OF assms] frame_attachToWindow [OF assms]
    returns_with_window [OF assms(1)]
  by (auto simp: getWindowData_resolved)

theorem mutators_touch_only_own_entry_witness:
  "getWindow world1 helper0 = Some 1
   \<and> (111 :: nat) \<noteq> QWidget_winId world1 1
   \<and> (\<exists>w'. setTitleBarWidget debug_build world1 helper0 (Some 4) = Inr w'
          \<and> g_widgetsHelper w' 111 = Some data2)
   \<and> (\<exists>w'. setSystemButton debug_build world1 helper0 (Some 4) Minimize = Inr w'
          \<and> g_widgetsHelper w' 111 = Some data2)
   \<and> (\<exists>w'. setHitTestVisible debug_build world1 helper0 (Some 4) = Inr w'
          \<and> g_widgetsHelper w' 111 = Some data2)
   \<and> (\<exists>w'. attachToWindow debug_build world1 helper0 = Inr w'
          \<and> g_widgetsHelper w' 111 = Some data2)"
proof -
  have neq: "(111 :: nat) \<noteq> QWidget_winId world1 1"
    by (simp add: world1_fields world0_fields)
  have other: "g_widgetsHelper world1 111 = Some data2"
    by (simp add: world1_fields)
  show ?thesis
    using mutators_touch_only_own_entry
            [where widget = "Some 4" and b = debug_build and buttonType = Minimize,
             OF getWindow_world1_helper0 neq]
      getWindow_world1_helper0 neq other
    by auto
qed

text \<open>What each call does to the hit-test visible lists.\<close>

lemma hits_getWindowData [simp]:
  "hitTestVisible_of (fst (getWindowData w q)) k = hitTestVisible_of w k"
  by (simp add: hitTestVisible_of_def)

lemma hits_setTitleBarWidget:
  "setTitleBarWidget b w q widget = Inr w' \<Longrightarrow> hitTestVisible_of w' k = hitTestVisible_of w k"
  by (cases "getWindow w q")
     (auto simp: setTitleBarWidget_def hitTestVisible_of_def mutable_unfold
        WidgetsHelperData_default_def split: if_splits option.splits)

lemma hits_setSystemButton:
  "setSystemButton b w q widget buttonType = Inr w' \<Longrightarrow>
   hitTestVisible_of w' k = hitTestVisible_of w k"
  by (cases "getWindow w q"; cases buttonType)
     (auto simp: setSystemButton_def hitTestVisible_of_def mutable_unfold
        WidgetsHelperData_default_def split: if_splits option.splits)

lemma hits_attachToWindow:
  "attachToWindow b w q = Inr w' \<Longrightarrow> hitTestVisible_of w' k = hitTestVisible_of w k"
  by (cases "getWindow w q")
     (auto simp: attachToWindow_def hitTestVisible_of_def mutable_unfold
        WidgetsHelperData_default_def split: if_splits option.splits)

lemma hits_setHitTestVisible:
  "setHitTestVisible b w q widget = Inr w' \<Longrightarrow>
   hitTestVisible_of w' k = hitTestVisible_of w k
   \<or> (widget \<noteq> None \<and> widget \<notin> set (hitTestVisible_of w k)
      \<and> hitTestVisible_of w' k = hitTestVisible_of w k @ [widget])"
  by (cases "getWindow w q")
     (auto simp: setHitTestVisible_def hitTestVisible_of_def mutable_unfold
        WidgetsHelperData_default_def split: if_splits option.splits)

lemma world_isInSystemButtons:
  "isInSystemButtons b w q pos button = Inr r \<Longrightarrow> fst r = w \<or> fst r = fst (getWindowData w q)"
  by (auto simp: isInSystemButtons_def Let_def split: if_splits prod.splits)

lemma world_isInTitleBarDraggableArea:
  "isInTitleBarDraggableArea b w q pos = Inr r \<Longrightarrow> fst r = fst (getWindowData w q)"
  by (auto simp: isInTitleBarDraggableArea_def Let_def split: if_splits prod.splits sum.splits)

lemma hits_unchanged_by_hash:
  "g_widgetsHelper w' = g_widgetsHelper w \<Longrightarrow> hitTestVisible_of w' k = hitTestVisible_of w k"
  by (simp add: hitTestVisible_of_def deref_def)

lemma hash_updateButtonState:
  "updateButtonState b w state btn = Inr w' \<Longrightarrow> g_widgetsHelper w' = g_widgetsHelper w"
  by (cases state; cases btn)
     (auto simp: updateButtonState_def record_event_def split: if_splits)

lemma hash_setSystemButtonState:
  assumes "setSystemButtonState b w q button state = Inr w'"
  shows "g_widgetsHelper w' = g_widgetsHelper w
       \<or> g_widgetsHelper w' = g_widgetsHelper (fst (getWindowData w q))"
proof -
  obtain w1 d where g: "getWindowData w q = (w1, d)" by (cases "getWindowData w q")
  show ?thesis
  proof (cases "Q_ASSERT_fails b (button \<noteq> Unknown) \<or> button = Unknown")
    case True
    then show ?thesis using assms by (auto simp: setSystemButtonState_def split: if_splits)
  next
    case False
    then have eq: "setSystemButtonState b w q button state =
        (case select_widgetButton b d button of
              Inl e \<Rightarrow> Inl e
            | Inr None \<Rightarrow> Inr w1
            | Inr (Some widgetButton) \<Rightarrow>
                (case QObject_metaObject w1 widgetButton of
                   None \<Rightarrow> Inr w1
                 | Some mo \<Rightarrow>
                     if indexOfSlot mo (normalizedSignature ''setPressed(bool)'') \<ge> 0
                        \<and> indexOfSlot mo (normalizedSignature ''setHovered(bool)'') \<ge> 0
                        \<and> indexOfSignal mo (normalizedSignature ''clicked()'') \<ge> 0
                     then updateButtonState b w1 state (Some widgetButton)
                     else Inr w1))"
      using g
      by (auto simp add: setSystemButtonState_def Q_ASSERT_fails_def Let_def
          split: sum.splits option.splits)
    show ?thesis
      using assms g hash_updateButtonState [of b w1 state _ w']
      unfolding eq
      by (auto split: sum.splits option.splits if_splits)
  qed
qed

lemma hits_setSystemButtonState:
  "setSystemButtonState b w q button state = Inr w' \<Longrightarrow>
   hitTestVisible_of w' k = hitTestVisible_of w k"
  using hash_setSystemButtonState [of b w q button state w']
    hits_unchanged_by_hash [of w' w k]
    hits_unchanged_by_hash [of w' "fst (getWindowData w q)" k] hits_getWindowData [of w q k]
  by auto

lemma perform_hits:
  assumes "perform b w q c = Inr w'"
  shows "hitTestVisible_of w' k = hitTestVisible_of w k
   \<or> (\<exists>x. c = Call_setHitTestVisible (Some x) \<and> Some x \<notin> set (hitTestVisible_of w k)
          \<and> hitTestVisible_of w' k = hitTestVisible_of w k @ [Some x])"
proof (cases c)
  case (Call_setHitTestVisible widget)
  then have "setHitTestVisible b w q widget = Inr w'" using assms by simp
  from hits_setHitTestVisible [OF this, of k] Call_setHitTestVisible show ?thesis by auto
next
  case (Call_isInSystemButtons pos button)
  then obtain r where "isInSystemButtons b w q pos button = Inr r" "w' = fst r"
    using assms by (auto split: sum.splits)
  then show ?thesis using world_isInSystemButtons [of b w q pos button r] by auto
next
  case (Call_isInTitleBarDraggableArea pos)
  then obtain r where "isInTitleBarDraggableArea b w q pos = Inr r" "w' = fst r"
    using assms by (auto split: sum.splits)
  then show ?thesis using world_isInTitleBarDraggableArea [of b w q pos r] by auto
next
  case (Call_getTitleBarWidget)
  have "fst (getTitleBarWidget w q) = fst (getWindowData w q)"
    by (simp add: getTitleBarWidget_def split: prod.splits)
  then have "hitTestVisible_of (fst (getTitleBarWidget w q)) k = hitTestVisible_of w k"
    by simp
  then show ?thesis using assms Call_getTitleBarWidget by auto
next
  case (Call_setTitleBarWidget widget)
  then show ?thesis using assms hits_setTitleBarWidget [of b w q widget w' k] by simp
next
  case (Call_setSystemButton widget t)
  then show ?thesis using assms hits_setSystemButton [of b w q widget t w' k] by simp
next
  case (Call_setSystemButtonState t st)
  then show ?thesis using assms hits_setSystemButtonState [of b w q t st w' k] by simp
next
  case Call_attachToWindow
  then show ?thesis using assms hits_attachToWindow [of b w q w' k] by simp
next
  case (Call_mapWidgetGeometryToScene widget)
  then show ?thesis using assms by (auto split: sum.splits)
next
  case Call_isWindowFixedSize
  then show ?thesis using assms by auto
next
  case (Call_setWindowFixedSize v)
  then have "g_widgetsHelper w' = g_widgetsHelper w" using assms by auto
  then show ?thesis using hits_unchanged_by_hash by blast
next
  case Call_moveWindowToDesktopCenter
  then have "g_widgetsHelper w' = g_widgetsHelper w" using assms by auto
  then show ?thesis using hits_unchanged_by_hash by blast
next
  case Call_bringWindowToFront
  then have "g_widgetsHelper w' = g_widgetsHelper w" using assms by auto
  then show ?thesis using hits_unchanged_by_hash by blast
next
  case (Call_showSystemMenu pos)
  then have "g_widgetsHelper w' = g_widgetsHelper w" using assms by auto
  then show ?thesis using hits_unchanged_by_hash by blast
next
  case (Call_windowStartSystemMove2 pos)
  then have "g_widgetsHelper w' = g_widgetsHelper w" using assms by auto
  then show ?thesis using hits_unchanged_by_hash by blast
next
  case (Call_windowStartSystemResize2 edges pos)
  then have "g_widgetsHelper w' = g_widgetsHelper w" using assms by auto
  then show ?thesis using hits_unchanged_by_hash by blast
qed

lemma perform_grows:
  "perform b w q c = Inr w' \<Longrightarrow> \<exists>ys. hitTestVisible_of w' k = hitTestVisible_of w k @ ys"
  using perform_hits [of b w q c w' k] by auto

lemma perform_distinct:
  "perform b w q c = Inr w' \<Longrightarrow> distinct (hitTestVisible_of w k) \<Longrightarrow>
   distinct (hitTestVisible_of w' k)"
  using perform_hits [of b w q c w' k] by auto

lemma run_distinct:
  "run b w cs = Inr w' \<Longrightarrow> (\<forall>k. distinct (hitTestVisible_of w k)) \<Longrightarrow>
   distinct (hitTestVisible_of w' k)"
proof (induction cs arbitrary: w)
  case Nil
  then show ?case by simp
next
  case (Cons a cs)
  obtain q c where a: "a = (q, c)" by (cases a)
  from Cons.prems(1) a obtain w1 where
    step: "perform b w q c = Inr w1" and rest: "run b w1 cs = Inr w'"
    by (auto split: sum.splits)
  have "\<forall>k. distinct (hitTestVisible_of w1 k)"
    using perform_distinct [OF step] Cons.prems(2) by blast
  from Cons.IH [OF rest this] show ?case .
qed

lemma run_grows:
  "run b w cs = Inr w' \<Longrightarrow> \<exists>ys. hitTestVisible_of w' k = hitTestVisible_of w k @ ys"
proof (induction cs arbitrary: w)
  case Nil
  then show ?case by simp
next
  case (Cons a cs)
  obtain q c where a: "a = (q, c)" by (cases a)
  from Cons.prems a obtain w1 where
    step: "perform b w q c = Inr w1" and rest: "run b w1 cs = Inr w'"
    by (auto split: sum.splits)
  from perform_grows [OF step, of k] Cons.IH [OF rest] show ?case by fastforce
qed

lemma hits_empty_hash:
  "g_widgetsHelper w = (\<lambda>_. None) \<Longrightarrow> hitTestVisible_of w k = []"
  by (simp add: hitTestVisible_of_def deref_def QHash_value_def WidgetsHelperData_default_def)

text \<open>
  Claim C8. \<^verbatim>\<open>setHitTestVisible\<close> is append-only and idempotent. For a non-null widget and
  a helper whose window resolves: when the widget is already in the window's list the call
  leaves the whole state as it is; otherwise it returns with the widget appended once at
  the end of the list. No call of the module removes an entry: after any call that
  returns, and after any run of calls, every list is the old list with something appended,
  and a list without duplicates stays without duplicates; so in every state reached from
  the empty hash every list is free of duplicates.
\<close>

theorem setHitTestVisible_append_only:
  "(getWindow w q = Some window \<longrightarrow>
      (Some x \<in> set (hitTestVisible_of w (QWidget_winId w window)) \<longrightarrow>
         setHitTestVisible b w q (Some x) = Inr w)
    \<and> (Some x \<notin> set (hitTestVisible_of w (QWidget_winId w window)) \<longrightarrow>
         (\<exists>w'. setHitTestVisible b w q (Some x) = Inr w'
              \<and> hitTestVisible_of w' (QWidget_winId w window) =
                  hitTestVisible_of w (QWidget_winId w window) @ [Some x])))
   \<and> (perform b w q c = Inr w1 \<longrightarrow>
        (\<exists>ys. hitTestVisible_of w1 k = hitTestVisible_of w k @ ys)
        \<and> (distinct (hitTestVisible_of w k) \<longrightarrow> distinct (hitTestVisible_of w1 k)))
   \<and> (run b w cs = Inr w2 \<longrightarrow>
        (\<exists>ys. hitTestVisible_of w2 k = hitTestVisible_of w k @ ys)
        \<and> (g_widgetsHelper w = (\<lambda>_. None) \<longrightarrow> distinct (hitTestVisible_of w2 k)))"
proof -
  have call: "getWindow w q = Some window \<longrightarrow>
      (Some x \<in> set (hitTestVisible_of w (QWidget_winId w window)) \<longrightarrow>
         setHitTestVisible b w q (Some x) = Inr w)
    \<and> (Some x \<notin> set (hitTestVisible_of w (QWidget_winId w window)) \<longrightarrow>
         (\<exists>w'. setHitTestVisible b w q (Some x) = Inr w'
              \<and> hitTestVisible_of w' (QWidget_winId w window) =
                  hitTestVisible_of w (QWidget_winId w window) @ [Some x]))"
    by (auto simp: setHitTestVisible_def hitTestVisible_of_def mutable_unfold
        WidgetsHelperData_default_def split: option.splits)
  have one: "perform b w q c = Inr w1 \<longrightarrow>
        (\<exists>ys. hitTestVisible_of w1 k = hitTestVisible_of w k @ ys)
        \<and> (distinct (hitTestVisible_of w k) \<longrightarrow> distinct (hitTestVisible_of w1 k))"
    using perform_grows [of b w q c w1 k] perform_distinct [of b w q c w1 k] by blast
  have many: "run b w cs = Inr w2 \<longrightarrow>
        (\<exists>ys. hitTestVisible_of w2 k = hitTestVisible_of w k @ ys)
        \<and> (g_widgetsHelper w = (\<lambda>_. None) \<longrightarrow> distinct (hitTestVisible_of w2 k))"
    using run_grows [of b w cs w2 k] run_distinct [of b w cs w2 k] hits_empty_hash [of w]
    by auto
  from call one many show ?thesis by blast
qed

lemma hits_world1: "hitTestVisible_of world1 101 = [Some 4]"
  by (simp add: hitTestVisible_of_def deref_world1 data1_def)

lemma winId_world1: "QWidget_winId world1 1 = 101"
  by (simp add: world1_fields world0_fields)

lemma setHitTestVisible_world0:
  "setHitTestVisible debug_build world0 helper0 (Some 4) =
     Inr (world0\<lparr> g_widgetsHelper :=
                   (\<lambda>_. None)(101 \<mapsto> WidgetsHelperData_default\<lparr> hitTestVisibleWidgets := [Some 4] \<rparr>) \<rparr>)"
  by (simp add: setHitTestVisible_def getWindowDataMutable_resolved [OF getWindow_world0_helper0]
      Q_ASSERT_fails_def debug_build_def world0_fields deref_def store_def QHash_value_def
      WidgetsHelperData_default_def)

lemma run_world0:
  "\<exists>w2. run debug_build world0
           [(helper0, Call_setHitTestVisible (Some 4)), (helper0, Call_setHitTestVisible (Some 4)),
            (helper0, Call_setTitleBarWidget (Some 2))] = Inr w2
        \<and> hitTestVisible_of w2 101 = [Some 4]"
proof -
  let ?w1 = "world0\<lparr> g_widgetsHelper :=
                   (\<lambda>_. None)(101 \<mapsto> WidgetsHelperData_default\<lparr> hitTestVisibleWidgets := [Some 4] \<rparr>) \<rparr>"
  have g1: "getWindow ?w1 helper0 = Some 1"
    by (simp add: getWindow_world0_helper0)
  have s2: "setHitTestVisible debug_build ?w1 helper0 (Some 4) = Inr ?w1"
    by (simp add: setHitTestVisible_def getWindowDataMutable_resolved [OF g1] world0_fields
        Q_ASSERT_fails_def debug_build_def deref_def QHash_value_def)
  obtain w2 where s3: "setTitleBarWidget debug_build ?w1 helper0 (Some 2) = Inr w2"
    using returns_with_window(1) [OF g1] by blast
  have "hitTestVisible_of w2 101 = hitTestVisible_of ?w1 101"
    using hits_setTitleBarWidget [OF s3] .
  also have "\<dots> = [Some 4]"
    by (simp add: hitTestVisible_of_def deref_def QHash_value_def)
  finally show ?thesis
    using setHitTestVisible_world0 s2 s3 by simp
qed

theorem setHitTestVisible_append_only_witness:
  "getWindow world1 helper0 = Some 1
   \<and> Some 4 \<in> set (hitTestVisible_of world1 (QWidget_winId world1 1))
   \<and> setHitTestVisible debug_build world1 helper0 (Some 4) = Inr world1
   \<and> Some 9 \<notin> set (hitTestVisible_of world1 (QWidget_winId world1 1))
   \<and> (\<exists>w'. setHitTestVisible debug_build world1 helper0 (Some 9) = Inr w'
          \<and> hitTestVisible_of w' 101 = [Some 4, Some 9])
   \<and> (\<exists>w2. run debug_build world0
              [(helper0, Call_setHitTestVisible (Some 4)), (helper0, Call_setHitTestVisible (Some 4)),
               (helper0, Call_setTitleBarWidget (Some 2))] = Inr w2
          \<and> g_widgetsHelper world0 = (\<lambda>_. None)
          \<and> hitTestVisible_of w2 101 = [Some 4]
          \<and> distinct (hitTestVisible_of w2 101))"
proof -
  obtain w2 where r: "run debug_build world0
           [(helper0, Call_setHitTestVisible (Some 4)), (helper0, Call_setHitTestVisible (Some 4)),
            (helper0, Call_setTitleBarWidget (Some 2))] = Inr w2"
    and h: "hitTestVisible_of w2 101 = [Some 4]"
    using run_world0 by blast
  have e: "g_widgetsHelper world0 = (\<lambda>_. None)" by (simp add: world0_fields)
  have d: "distinct (hitTestVisible_of w2 101)"
    using setHitTestVisible_append_only
            [where b = debug_build and w = world0 and cs = "[(helper0, Call_setHitTestVisible (Some 4)),
               (helper0, Call_setHitTestVisible (Some 4)), (helper0, Call_setTitleBarWidget (Some 2))]"
             and ?w2.0 = w2 and k = 101] r e
    by blast
  have a: "setHitTestVisible debug_build world1 helper0 (Some 4) = Inr world1"
    using setHitTestVisible_append_only
            [where b = debug_build and w = world1 and q = helper0 and window = 1 and x = 4]
      getWindow_world1_helper0 hits_world1 winId_world1
    by simp
  have b: "\<exists>w'. setHitTestVisible debug_build world1 helper0 (Some 9) = Inr w'
          \<and> hitTestVisible_of w' 101 = [Some 4, Some 9]"
    using setHitTestVisible_append_only
            [where b = debug_build and w = world1 and q = helper0 and window = 1 and x = 9]
      getWindow_world1_helper0 hits_world1 winId_world1
    by simp
  show ?thesis
    using a b r h d e getWindow_world1_helper0 hits_world1 winId_world1 by auto
qed

lemma getWindowData_toolkit [simp]:
  "QWidget_geometry (fst (getWindowData w q)) = QWidget_geometry w"
  "QWidget_mapTo (fst (getWindowData w q)) = QWidget_mapTo w"
  "QObject_metaObject (fst (getWindowData w q)) = QObject_metaObject w"
  "events (fst (getWindowData w q)) = events w"
  "getWindow (fst (getWindowData w q)) q' = getWindow w q'"
  by (cases "getWindow w q"; simp add: getWindowData_null getWindowData_resolved)+

lemma button_geometry_contains_getWindowData [simp]:
  "button_geometry_contains (fst (getWindowData w q)) button pos =
   button_geometry_contains w button pos"
  by (simp add: button_geometry_contains_def split: option.splits)

text \<open>
  Claim C9. \<^verbatim>\<open>isInSystemButtons\<close> always initialises its out-parameter and reports
  buttons in a fixed order. With a non-null out-pointer, whatever the variable held
  before: the call returns; the result is that of the first button, in the order window
  icon, help, minimize, maximize, close, that is registered and whose geometry contains
  the point, with \<^verbatim>\<open>true\<close>; and when no registered button's geometry contains the point
  the result is \<^verbatim>\<open>false\<close> and the variable holds Unknown.
\<close>

theorem isInSystemButtons_first_match:
  "isInSystemButtons b w q pos (Some old) =
     Inr (fst (getWindowData w q),
          (case first_button_at w (snd (getWindowData w q)) pos of
             None \<Rightarrow> (False, Some Unknown)
           | Some t \<Rightarrow> (True, Some t)))
   \<and> ((\<forall>button \<in> set [windowIconButton (snd (getWindowData w q)),
                        contextHelpButton (snd (getWindowData w q)),
                        minimizeButton (snd (getWindowData w q)),
                        maximizeButton (snd (getWindowData w q)),
                        closeButton (snd (getWindowData w q))].
          \<not> button_geometry_contains w button pos) \<longrightarrow>
        isInSystemButtons b w q pos (Some old) =
          Inr (fst (getWindowData w q), False, Some Unknown))"
proof -
  obtain w1 d where g: "getWindowData w q = (w1, d)" by (cases "getWindowData w q")
  have c: "button_geometry_contains w1 button pos = button_geometry_contains w button pos"
    for button
    using button_geometry_contains_getWindowData [of w q button pos] g by simp
  show ?thesis
    by (simp add: isInSystemButtons_def Q_ASSERT_fails_def first_button_at_def g c)
qed

theorem isInSystemButtons_first_match_witness:
  "isInSystemButtons debug_build world1 helper0 (QPoint 775 10) (Some Help) =
     Inr (world1, True, Some Maximize)
   \<and> button_geometry_contains world1 (maximizeButton data1) (QPoint 775 10)
   \<and> button_geometry_contains world1 (closeButton data1) (QPoint 775 10)
   \<and> isInSystemButtons debug_build world1 helper0 (QPoint 785 10) (Some Help) =
     Inr (world1, True, Some Close)
   \<and> isInSystemButtons debug_build world1 helper0 (QPoint 5 10) (Some Help) =
     Inr (world1, False, Some Unknown)"
proof -
  have g: "getWindowData world1 helper0 = (world1, data1)"
    by (simp add: getWindowData_resolved [OF getWindow_world1_helper0] world1_fields
        world0_fields deref_world1)
  have geo: "QWidget_geometry world1 5 = QRect 740 0 779 29"
    "QWidget_geometry world1 3 = QRect 770 0 799 29"
    by (simp_all add: world1_fields world0_geometry)
  have c: "button_geometry_contains world1 None p = False"
    "button_geometry_contains world1 (Some 5) p = QRect_contains (QRect 740 0 779 29) p"
    "button_geometry_contains world1 (Some 3) p = QRect_contains (QRect 770 0 799 29) p" for p
    by (simp_all add: button_geometry_contains_def geo)
  show ?thesis
    using isInSystemButtons_first_match [of debug_build world1 helper0 "QPoint 775 10" Help]
      isInSystemButtons_first_match [of debug_build world1 helper0 "QPoint 785 10" Help]
      isInSystemButtons_first_match [of debug_build world1 helper0 "QPoint 5 10" Help]
    by (simp add: g first_button_at_def data1_def c QRect_contains_def)
qed

lemma QRect_from_parts [simp]:
  "QRect_topLeft (QRect_from p s) = p"
  "QRect_size (QRect_from p s) = s"
  by (simp_all add: QRect_topLeft_def QRect_size_def QRect_from_def)

lemma mapWidgetGeometryToScene_resolved:
  "getWindow w q = Some window \<Longrightarrow>
   mapWidgetGeometryToScene b w q (Some x) =
     Inr (QRect_from (QWidget_mapTo w x window (QPoint 0 0)) (QWidget_size w x))"
  by (simp add: mapWidgetGeometryToScene_def Q_ASSERT_fails_def)

lemma getWindow_native:
  "parent q = Some (WidgetObject pw) \<Longrightarrow> QWidget_nativeParentWidget w pw = Some n \<Longrightarrow>
   getWindow w q = Some n"
  by (simp add: getWindow_def)

lemma getWindow_toplevel:
  "parent q = Some (WidgetObject pw) \<Longrightarrow> QWidget_nativeParentWidget w pw = None \<Longrightarrow>
   getWindow w q = Some (QWidget_window w pw)"
  by (simp add: getWindow_def)

lemma getWindow_no_widget:
  "qobject_cast_QWidget (parent q) = None \<Longrightarrow> getWindow w q = None"
  by (simp add: getWindow_def)

lemma world_native_fields:
  "QWidget_nativeParentWidget world_native 3 = Some 2"
  "QWidget_window world_native 3 = 1"
  "QWidget_mapTo world_native 3 2 (QPoint 0 0) = QPoint 770 0"
  "QWidget_mapTo world_native 3 (Suc 0) (QPoint 0 0) = QPoint 770 50"
  "QWidget_size world_native 3 = QSize 30 30"
  by (simp_all add: world_native_def world1_def world0_def QWidget_size_def QRect_size_def)

text \<open>
  Claim C6, as amended. \<^verbatim>\<open>mapWidgetGeometryToScene\<close> is a direct adapter. The window it
  maps into is the one \<^verbatim>\<open>getWindow\<close> resolves: the native parent widget of the helper's
  parent widget when that has one, and only otherwise the parent widget's top-level
  \<^verbatim>\<open>window()\<close>; the two differ for a widget inside a native child widget. For a non-null
  widget and a helper whose window resolves, the function returns the rectangle whose
  top-left corner is \<^verbatim>\<open>widget->mapTo(window, QPoint(0, 0))\<close> for that window and whose size
  is \<^verbatim>\<open>widget->size()\<close>. For a non-null widget and no window (the helper's parent is not
  a widget) it returns the null rectangle, which is empty. For a null widget it returns the
  null rectangle only where \<^verbatim>\<open>Q_ASSERT\<close> is compiled out; where assertions are compiled
  in, \<^verbatim>\<open>Q_ASSERT(widget)\<close> aborts the call.
\<close>

theorem mapWidgetGeometryToScene_adapter:
  "(getWindow w q = Some window \<longrightarrow>
      (\<exists>r. mapWidgetGeometryToScene b w q (Some widget) = Inr r
           \<and> QRect_topLeft r = QWidget_mapTo w widget window (QPoint 0 0)
           \<and> QRect_size r = QWidget_size w widget))
   \<and> (getWindow w q = None \<longrightarrow> mapWidgetGeometryToScene b w q (Some widget) = Inr QRect_null)
   \<and> (\<not> assertions b \<longrightarrow> mapWidgetGeometryToScene b w q None = Inr QRect_null)
   \<and> (assertions b \<longrightarrow> mapWidgetGeometryToScene b w q None = Inl Q_ASSERT_failed)
   \<and> QRect_isEmpty QRect_null
   \<and> (parent q = Some (WidgetObject pw) \<and> QWidget_nativeParentWidget w pw = Some n \<longrightarrow>
        getWindow w q = Some n
        \<and> mapWidgetGeometryToScene b w q (Some widget) =
            Inr (QRect_from (QWidget_mapTo w widget n (QPoint 0 0)) (QWidget_size w widget)))
   \<and> (parent q = Some (WidgetObject pw) \<and> QWidget_nativeParentWidget w pw = None \<longrightarrow>
        getWindow w q = Some (QWidget_window w pw)
        \<and> mapWidgetGeometryToScene b w q (Some widget) =
            Inr (QRect_from (QWidget_mapTo w widget (QWidget_window w pw) (QPoint 0 0))
                   (QWidget_size w widget)))
   \<and> (qobject_cast_QWidget (parent q) = None \<longrightarrow>
        getWindow w q = None
        \<and> mapWidgetGeometryToScene b w q (Some widget) = Inr QRect_null)"
proof -
  have old: "(getWindow w q = Some window \<longrightarrow>
      (\<exists>r. mapWidgetGeometryToScene b w q (Some widget) = Inr r
           \<and> QRect_topLeft r = QWidget_mapTo w widget window (QPoint 0 0)
           \<and> QRect_size r = QWidget_size w widget))
   \<and> (getWindow w q = None \<longrightarrow> mapWidgetGeometryToScene b w q (Some widget) = Inr QRect_null)
   \<and> (\<not> assertions b \<longrightarrow> mapWidgetGeometryToScene b w q None = Inr QRect_null)
   \<and> (assertions b \<longrightarrow> mapWidgetGeometryToScene b w q None = Inl Q_ASSERT_failed)
   \<and> QRect_isEmpty QRect_null"
    by (simp add: mapWidgetGeometryToScene_resolved)
       (simp add: mapWidgetGeometryToScene_def Q_ASSERT_fails_def QRect_isEmpty_def QRect_null_def)
  have native: "parent q = Some (WidgetObject pw) \<and> QWidget_nativeParentWidget w pw = Some n \<longrightarrow>
        getWindow w q = Some n
        \<and> mapWidgetGeometryToScene b w q (Some widget) =
            Inr (QRect_from (QWidget_mapTo w widget n (QPoint 0 0)) (QWidget_size w widget))"
    using getWindow_native [of q pw w n] mapWidgetGeometryToScene_resolved [of w q n b widget]
    by blast
  have top: "parent q = Some (WidgetObject pw) \<and> QWidget_nativeParentWidget w pw = None \<longrightarrow>
        getWindow w q = Some (QWidget_window w pw)
        \<and> mapWidgetGeometryToScene b w q (Some widget) =
            Inr (QRect_from (QWidget_mapTo w widget (QWidget_window w pw) (QPoint 0 0))
                   (QWidget_size w widget))"
    using getWindow_toplevel [of q pw w]
      mapWidgetGeometryToScene_resolved [of w q "QWidget_window w pw" b widget]
    by blast
  have none: "qobject_cast_QWidget (parent q) = None \<longrightarrow>
        getWindow w q = None
        \<and> mapWidgetGeometryToScene b w q (Some widget) = Inr QRect_null"
    using getWindow_no_widget [of q w] old by blast
  from old native top none show ?thesis by blast
qed

theorem mapWidgetGeometryToScene_adapter_witness:
  "getWindow world1 helper0 = Some 1
   \<and> mapWidgetGeometryToScene debug_build world1 helper0 (Some 3) = Inr (QRect 770 0 799 29)
   \<and> QRect_topLeft (QRect 770 0 799 29) = QWidget_mapTo world1 3 1 (QPoint 0 0)
   \<and> QRect_size (QRect 770 0 799 29) = QWidget_size world1 3
   \<and> getWindow world1 orphan = None
   \<and> mapWidgetGeometryToScene debug_build world1 orphan (Some 3) = Inr QRect_null
   \<and> \<not> assertions release_build
   \<and> mapWidgetGeometryToScene release_build world1 helper0 None = Inr QRect_null
   \<and> assertions debug_build
   \<and> mapWidgetGeometryToScene debug_build world1 helper0 None = Inl Q_ASSERT_failed
   \<and> parent helper_native = Some (WidgetObject 3)
   \<and> QWidget_nativeParentWidget world_native 3 = Some 2
   \<and> getWindow world_native helper_native = Some 2
   \<and> mapWidgetGeometryToScene debug_build world_native helper_native (Some 3) =
       Inr (QRect 770 0 799 29)
   \<and> parent helper0 = Some (WidgetObject 1)
   \<and> QWidget_nativeParentWidget world1 1 = None
   \<and> QWidget_window world1 1 = 1
   \<and> qobject_cast_QWidget (parent orphan) = None"
proof -
  have m: "QWidget_mapTo world1 3 1 (QPoint 0 0) = QPoint 770 0"
    by (simp add: world1_fields world0_geometry)
  have s: "QWidget_size world1 3 = QSize 30 30"
    by (simp add: QWidget_size_def world1_fields world0_geometry QRect_size_def)
  have p: "parent helper_native = Some (WidgetObject 3)" "parent helper0 = Some (WidgetObject 1)"
    "qobject_cast_QWidget (parent orphan) = None"
    by (simp_all add: helper_native_def helper0_def orphan_def)
  have t: "QWidget_nativeParentWidget world1 1 = None" "QWidget_window world1 1 = 1"
    by (simp_all add: world1_def world0_def)
  have r: "mapWidgetGeometryToScene debug_build world1 helper0 (Some 3) = Inr (QRect 770 0 799 29)"
    using mapWidgetGeometryToScene_adapter
            [where w = world1 and q = helper0 and pw = 1 and widget = 3 and b = debug_build]
      p(2) t m s
    by (simp add: QRect_from_def)
  have n: "getWindow world_native helper_native = Some 2
     \<and> mapWidgetGeometryToScene debug_build world_native helper_native (Some 3) =
       Inr (QRect 770 0 799 29)"
    using mapWidgetGeometryToScene_adapter
            [where w = world_native and q = helper_native and pw = 3 and n = 2 and widget = 3
               and b = debug_build]
      p(1) world_native_fields
    by (simp add: QRect_from_def)
  show ?thesis
    using r m s n p t getWindow_world1_helper0 getWindow_orphan [of world1]
      world_native_fields(1)
      mapWidgetGeometryToScene_adapter
        [where w = world1 and q = orphan and widget = 3 and b = debug_build]
      mapWidgetGeometryToScene_adapter [where w = world1 and q = helper0 and b = release_build]
      mapWidgetGeometryToScene_adapter [where w = world1 and q = helper0 and b = debug_build]
    by (simp add: release_build_def debug_build_def QRect_topLeft_def QRect_size_def)
qed

theorem mapWidgetGeometryToScene_counterexample:
  "mapWidgetGeometryToScene debug_build world1 helper0 None \<noteq> Inr QRect_null
   \<and> QWidget_window world_native 3 = 1
   \<and> mapWidgetGeometryToScene debug_build world_native helper_native (Some 3) =
       Inr (QRect 770 0 799 29)
   \<and> QRect_from (QWidget_mapTo world_native 3 (QWidget_window world_native 3) (QPoint 0 0))
        (QWidget_size world_native 3) = QRect 770 50 799 79"
proof -
  have g: "getWindow world_native helper_native = Some 2"
    by (simp add: getWindow_def helper_native_def world_native_fields)
  show ?thesis
    by (simp add: mapWidgetGeometryToScene_resolved [OF g] world_native_fields QRect_from_def)
       (simp add: mapWidgetGeometryToScene_def Q_ASSERT_fails_def debug_build_def)
qed

lemma indexOf_found: "0 \<le> indexOf s xs \<longleftrightarrow> s \<in> set xs"
  by (induction xs) (auto simp: Let_def)

lemma normalizedSignature_literals:
  "normalizedSignature ''setPressed(bool)'' = ''setPressed(bool)''"
  "normalizedSignature ''setHovered(bool)'' = ''setHovered(bool)''"
  "normalizedSignature ''clicked()'' = ''clicked()''"
  by (simp_all add: normalizedSignature_def)

lemma select_widgetButton_registered:
  "button \<noteq> Unknown \<Longrightarrow> select_widgetButton b d button = Inr (registered_button d button)"
  by (cases button) (simp_all add: select_widgetButton_def)

lemma updateButtonState_invocations:
  "updateButtonState b w state (Some x) = Inr (w\<lparr> events := events w @ invocations_spec x state \<rparr>)"
  by (cases state) (simp_all add: updateButtonState_def Q_ASSERT_fails_def record_event_def)

text \<open>
  Claim C2. Button-state dispatch. For a button type whose registered widget exposes
  \<^verbatim>\<open>setPressed(bool)\<close>, \<^verbatim>\<open>setHovered(bool)\<close> and \<^verbatim>\<open>clicked()\<close>,
  \<^verbatim>\<open>setSystemButtonState\<close> returns and appends to the trace exactly the invocations on that
  widget listed by \<open>invocations_spec\<close>: Unspecified gives pressed false then hovered false,
  Hovered gives pressed false then hovered true, Pressed gives hovered true then pressed
  true, Clicked gives pressed false, hovered true and then \<^verbatim>\<open>clicked\<close>. The button types
  Maximize and Restore are registered under, and dispatch to, the same stored button: the
  two calls are equal in every state.
\<close>

theorem setSystemButtonState_dispatch:
  assumes "registered_button (snd (getWindowData w q)) button = Some x"
    and "QObject_metaObject w x = Some mo"
    and "exposes_button_interface mo"
  shows "setSystemButtonState b w q button state =
           Inr ((fst (getWindowData w q))\<lparr> events := events w @ invocations_spec x state \<rparr>)
       \<and> setSystemButtonState b w' q' Restore state' = setSystemButtonState b w' q' Maximize state'
       \<and> registered_button d Restore = registered_button d Maximize"
proof -
  obtain w1 d1 where g: "getWindowData w q = (w1, d1)" by (cases "getWindowData w q")
  have known: "button \<noteq> Unknown" using assms(1) by auto
  have reg: "registered_button d1 button = Some x" using assms(1) g by simp
  have mo: "QObject_metaObject w1 x = Some mo"
    using getWindowData_toolkit(3) [of w q] g assms(2) by simp
  have ev: "events w1 = events w"
    using getWindowData_toolkit(4) [of w q] g by simp
  have idx: "0 \<le> indexOfSlot mo ''setPressed(bool)''" "0 \<le> indexOfSlot mo ''setHovered(bool)''"
    "0 \<le> indexOfSignal mo ''clicked()''"
    using assms(3)
    by (simp_all add: exposes_button_interface_def indexOfSlot_def indexOfSignal_def indexOf_found)
  have first: "setSystemButtonState b w q button state =
           Inr (w1\<lparr> events := events w @ invocations_spec x state \<rparr>)"
    using known idx
    by (simp add: setSystemButtonState_def Q_ASSERT_fails_def g select_widgetButton_registered
        reg mo normalizedSignature_literals updateButtonState_invocations ev)
  have second: "setSystemButtonState b w' q' Restore state' = setSystemButtonState b w' q' Maximize state'"
    by (simp add: setSystemButtonState_def select_widgetButton_def)
  show ?thesis using first second g by simp
qed

theorem setSystemButtonState_dispatch_witness:
  "registered_button (snd (getWindowData world1 helper0)) Restore = Some 5
   \<and> QObject_metaObject world1 5 =
       Some (QMetaObject [''setHovered(bool)'', ''setPressed(bool)''] [''clicked()''])
   \<and> exposes_button_interface (QMetaObject [''setHovered(bool)'', ''setPressed(bool)''] [''clicked()''])
   \<and> setSystemButtonState debug_build world1 helper0 Restore Clicked =
       Inr (world1\<lparr> events := [InvokeMethod 5 ''setPressed'' [False],
                                 InvokeMethod 5 ''setHovered'' [True],
                                 InvokeMethod 5 ''clicked'' []] \<rparr>)
   \<and> setSystemButtonState debug_build world1 helper0 Maximize Pressed =
       Inr (world1\<lparr> events := [InvokeMethod 5 ''setHovered'' [True],
                                 InvokeMethod 5 ''setPressed'' [True]] \<rparr>)"
proof -
  have g: "getWindowData world1 helper0 = (world1, data1)"
    by (simp add: getWindowData_resolved [OF getWindow_world1_helper0] world1_fields
        world0_fields deref_world1)
  have r: "registered_button (snd (getWindowData world1 helper0)) Restore = Some 5"
    "registered_button (snd (getWindowData world1 helper0)) Maximize = Some 5"
    by (simp_all add: g data1_def)
  have m: "QObject_metaObject world1 5 =
       Some (QMetaObject [''setHovered(bool)'', ''setPressed(bool)''] [''clicked()''])"
    by (simp add: world1_fields world0_geometry)
  have e: "exposes_button_interface
             (QMetaObject [''setHovered(bool)'', ''setPressed(bool)''] [''clicked()''])"
    by (simp add: exposes_button_interface_def)
  show ?thesis
    using setSystemButtonState_dispatch [OF r(1) m e, of debug_build Clicked]
      setSystemButtonState_dispatch [OF r(2) m e, of debug_build Pressed] r m e
    by (simp add: g world1_fields)
qed

lemma QRegion_from_lies_inside:
  "QRegion_from (QRect_from origin s) p = lies_inside origin s p"
  by (auto simp: QRegion_from_def QRect_from_def QRect_isEmpty_def lies_inside_def)

lemma scene_region:
  "getWindow w q = Some window \<Longrightarrow>
   mapWidgetGeometryToScene b w q (Some x) = Inr r \<Longrightarrow>
   QRegion_from r p = in_scene_geometry w window x p"
  by (auto simp: mapWidgetGeometryToScene_resolved QRegion_from_lies_inside in_scene_geometry_def)

lemma subtract_systemButtons_region:
  assumes "getWindow w q = Some window"
  shows "subtract_systemButtons b w q buttons region =
     Inr (\<lambda>p. region p
              \<and> (\<forall>button \<in> set buttons.
                    case button of None \<Rightarrow> True | Some x \<Rightarrow> \<not> in_scene_geometry w window x p))"
proof (induction buttons arbitrary: region)
  case Nil
  then show ?case by simp
next
  case (Cons button rest)
  show ?case
  proof (cases button)
    case None
    then show ?thesis using Cons.IH [of region] by simp
  next
    case (Some x)
    have r: "mapWidgetGeometryToScene b w q (Some x) =
        Inr (QRect_from (QWidget_mapTo w x window (QPoint 0 0)) (QWidget_size w x))"
      using assms by (rule mapWidgetGeometryToScene_resolved)
    have eq: "QRegion_subtracted region
            (QRegion_from (QRect_from (QWidget_mapTo w x window (QPoint 0 0)) (QWidget_size w x)))
          = (\<lambda>p. region p \<and> \<not> in_scene_geometry w window x p)"
      by (simp add: QRegion_subtracted_def QRegion_from_lies_inside in_scene_geometry_def)
    show ?thesis
      using Some r Cons.IH [of "\<lambda>p. region p \<and> \<not> in_scene_geometry w window x p"]
      by (simp add: eq conj_assoc)
  qed
qed

lemma subtract_hitTestVisible_region:
  assumes "getWindow w q = Some window"
    and "assertions b \<longrightarrow> None \<notin> set widgets"
  shows "subtract_hitTestVisible b w q widgets region =
     Inr (\<lambda>p. region p
              \<and> (\<forall>widget \<in> set widgets.
                    case widget of None \<Rightarrow> True | Some x \<Rightarrow> \<not> in_scene_geometry w window x p))"
  using assms(2)
proof (induction widgets arbitrary: region)
  case Nil
  then show ?case by simp
next
  case (Cons widget rest)
  have rest: "assertions b \<longrightarrow> None \<notin> set rest" using Cons.prems by auto
  show ?case
  proof (cases widget)
    case None
    then have "\<not> assertions b" using Cons.prems by auto
    then show ?thesis using None Cons.IH [OF rest, of region] by (simp add: Q_ASSERT_fails_def)
  next
    case (Some x)
    have r: "mapWidgetGeometryToScene b w q (Some x) =
        Inr (QRect_from (QWidget_mapTo w x window (QPoint 0 0)) (QWidget_size w x))"
      using assms(1) by (rule mapWidgetGeometryToScene_resolved)
    have eq: "QRegion_subtracted region
            (QRegion_from (QRect_from (QWidget_mapTo w x window (QPoint 0 0)) (QWidget_size w x)))
          = (\<lambda>p. region p \<and> \<not> in_scene_geometry w window x p)"
      by (simp add: QRegion_subtracted_def QRegion_from_lies_inside in_scene_geometry_def)
    show ?thesis
      using Some r Cons.IH [OF rest, of "\<lambda>p. region p \<and> \<not> in_scene_geometry w window x p"]
      by (simp add: eq conj_assoc Q_ASSERT_fails_def)
  qed
qed

lemma in_scene_geometry_getWindowData [simp]:
  "in_scene_geometry (fst (getWindowData w q)) window x p = in_scene_geometry w window x p"
  by (cases "getWindow w q")
     (simp_all add: in_scene_geometry_def QWidget_size_def getWindowData_null getWindowData_resolved)

lemma QRect_contains_lies_inside:
  "0 \<le> wd s \<Longrightarrow> 0 \<le> ht s \<Longrightarrow> QRect_contains (QRect_from origin s) p = lies_inside origin s p"
  by (auto simp: QRect_contains_def QRect_from_def lies_inside_def Let_def)

lemma perform_no_null:
  "perform b w q c = Inr w' \<Longrightarrow> None \<notin> set (hitTestVisible_of w k) \<Longrightarrow>
   None \<notin> set (hitTestVisible_of w' k)"
  using perform_hits [of b w q c w' k] by auto

lemma run_no_null:
  "run b w cs = Inr w' \<Longrightarrow> (\<forall>k. None \<notin> set (hitTestVisible_of w k)) \<Longrightarrow>
   None \<notin> set (hitTestVisible_of w' k)"
proof (induction cs arbitrary: w)
  case Nil
  then show ?case by simp
next
  case (Cons a cs)
  obtain q c where a: "a = (q, c)" by (cases a)
  from Cons.prems(1) a obtain w1 where
    step: "perform b w q c = Inr w1" and rest: "run b w1 cs = Inr w'"
    by (auto split: sum.splits)
  have "\<forall>k. None \<notin> set (hitTestVisible_of w1 k)"
    using perform_no_null [OF step] Cons.prems(2) by blast
  from Cons.IH [OF rest this] show ?case .
qed

text \<open>
  Claim C1. The hit-test region is the title bar minus its interactive children. In every
  state whose hit-test visible list holds no null pointer (\<^verbatim>\<open>setHitTestVisible\<close> never
  stores one), and in every state at all where \<^verbatim>\<open>Q_ASSERT\<close> is compiled out,
  \<^verbatim>\<open>isInTitleBarDraggableArea(pos)\<close> returns, and it returns true exactly when a title bar
  widget is registered for the window, \<open>pos\<close> lies inside the title bar's geometry mapped to
  the window, and \<open>pos\<close> lies inside the mapped geometry of no registered system button and
  of no hit-test visible widget.
\<close>

theorem isInTitleBarDraggableArea_region:
  assumes "assertions b \<longrightarrow> None \<notin> set (hitTestVisibleWidgets (snd (getWindowData w q)))"
  shows "isInTitleBarDraggableArea b w q pos = Inr (fst (getWindowData w q), draggable_spec w q pos)"
proof (cases "getWindow w q")
  case None
  then show ?thesis
    by (simp add: isInTitleBarDraggableArea_def getWindowData_null draggable_spec_def
        WidgetsHelperData_default_def)
next
  case (Some window)
  obtain w1 d where g: "getWindowData w q = (w1, d)" by (cases "getWindowData w q")
  have d: "d = deref w (QWidget_winId w window)"
    using getWindowData_snd [OF Some] g by simp
  have win1: "getWindow w1 q = Some window"
    using getWindowData_toolkit(5) [of w q q] g Some by simp
  have geo: "in_scene_geometry w1 window x p = in_scene_geometry w window x p" for x p
    using in_scene_geometry_getWindowData [of w q window x p] g by simp
  have nonnull: "assertions b \<longrightarrow> None \<notin> set (hitTestVisibleWidgets d)"
    using assms g by simp
  show ?thesis
  proof (cases "titleBarWidget d")
    case None
    then show ?thesis
      using Some d by (simp add: isInTitleBarDraggableArea_def g draggable_spec_def)
  next
    case (Some t)
    have r: "mapWidgetGeometryToScene b w1 q (Some t) =
        Inr (QRect_from (QWidget_mapTo w1 t window (QPoint 0 0)) (QWidget_size w1 t))"
      using win1 by (rule mapWidgetGeometryToScene_resolved)
    have geo': "in_scene_geometry w1 window = in_scene_geometry w window"
      by (intro ext) (rule geo)
    let ?buttons = "[windowIconButton d, contextHelpButton d, minimizeButton d,
                     maximizeButton d, closeButton d]"
    let ?R1 = "\<lambda>p. in_scene_geometry w window t p
                 \<and> (\<forall>button \<in> set ?buttons.
                       case button of None \<Rightarrow> True | Some x \<Rightarrow> \<not> in_scene_geometry w window x p)"
    let ?R2 = "\<lambda>p. ?R1 p
                 \<and> (\<forall>widget \<in> set (hitTestVisibleWidgets d).
                       case widget of None \<Rightarrow> True | Some x \<Rightarrow> \<not> in_scene_geometry w window x p)"
    have title: "QRegion_from (QRect_from (QWidget_mapTo w1 t window (QPoint 0 0)) (QWidget_size w1 t))
                 = (\<lambda>p. in_scene_geometry w window t p)"
      using geo [of t] by (intro ext) (simp add: QRegion_from_lies_inside in_scene_geometry_def)
    have sb: "subtract_systemButtons b w1 q ?buttons
                (QRegion_from (QRect_from (QWidget_mapTo w1 t window (QPoint 0 0)) (QWidget_size w1 t)))
              = Inr ?R1"
      unfolding title subtract_systemButtons_region [OF win1] geo' ..
    have hv: "(if hitTestVisibleWidgets d \<noteq> []
               then subtract_hitTestVisible b w1 q (hitTestVisibleWidgets d) ?R1
               else Inr ?R1) = Inr ?R2"
      unfolding subtract_hitTestVisible_region [OF win1 nonnull] geo'
      by (cases "hitTestVisibleWidgets d") simp_all
    have code: "isInTitleBarDraggableArea b w q pos = Inr (w1, ?R2 pos)"
      using Some
      by (simp add: isInTitleBarDraggableArea_def g r sb hv QRegion_contains_def Let_def
          del: set_simps subtract_systemButtons.simps subtract_hitTestVisible.simps)
    have spec: "draggable_spec w q pos = ?R2 pos"
      using Some \<open>getWindow w q = Some window\<close> d [symmetric]
      by (simp add: draggable_spec_def del: set_simps)
    show ?thesis using code spec g by simp
  qed
qed

lemma in_scene_geometry_world1:
  "in_scene_geometry world1 (Suc 0) 2 p = lies_inside (QPoint 0 0) (QSize 800 30) p"
  "in_scene_geometry world1 (Suc 0) 3 p = lies_inside (QPoint 770 0) (QSize 30 30) p"
  "in_scene_geometry world1 (Suc 0) 4 p = lies_inside (QPoint 10 0) (QSize 100 30) p"
  "in_scene_geometry world1 (Suc 0) 5 p = lies_inside (QPoint 740 0) (QSize 40 30) p"
  by (simp_all add: in_scene_geometry_def QWidget_size_def QRect_size_def world1_fields
      world0_geometry)

theorem isInTitleBarDraggableArea_region_witness:
  "assertions debug_build
   \<and> None \<notin> set (hitTestVisibleWidgets (snd (getWindowData world1 helper0)))
   \<and> isInTitleBarDraggableArea debug_build world1 helper0 (QPoint 300 10) = Inr (world1, True)
   \<and> isInTitleBarDraggableArea debug_build world1 helper0 (QPoint 50 10) = Inr (world1, False)
   \<and> isInTitleBarDraggableArea debug_build world1 helper0 (QPoint 775 10) = Inr (world1, False)
   \<and> isInTitleBarDraggableArea debug_build world1 helper0 (QPoint 300 40) = Inr (world1, False)
   \<and> isInTitleBarDraggableArea debug_build world1 orphan (QPoint 300 10) = Inr (world1, False)"
proof -
  have g: "getWindowData world1 helper0 = (world1, data1)"
    by (simp add: getWindowData_resolved [OF getWindow_world1_helper0] world1_fields
        world0_fields deref_world1)
  have go: "getWindowData world1 orphan = (world1, WidgetsHelperData_default)"
    by (simp add: getWindowData_null getWindow_orphan)
  have h: "assertions debug_build \<longrightarrow>
           None \<notin> set (hitTestVisibleWidgets (snd (getWindowData world1 helper0)))"
    by (simp add: g data1_def)
  have ho: "assertions debug_build \<longrightarrow>
           None \<notin> set (hitTestVisibleWidgets (snd (getWindowData world1 orphan)))"
    by (simp add: go WidgetsHelperData_default_def)
  have spec: "draggable_spec world1 helper0 p =
      (lies_inside (QPoint 0 0) (QSize 800 30) p
       \<and> \<not> lies_inside (QPoint 740 0) (QSize 40 30) p
       \<and> \<not> lies_inside (QPoint 770 0) (QSize 30 30) p
       \<and> \<not> lies_inside (QPoint 10 0) (QSize 100 30) p)" for p
    by (simp add: draggable_spec_def getWindow_world1_helper0 world1_fields world0_fields
        deref_world1 data1_def in_scene_geometry_world1 Let_def)
  have speco: "draggable_spec world1 orphan p = False" for p
    by (simp add: draggable_spec_def getWindow_orphan)
  show ?thesis
    using isInTitleBarDraggableArea_region [OF h, of "QPoint 300 10"]
      isInTitleBarDraggableArea_region [OF h, of "QPoint 50 10"]
      isInTitleBarDraggableArea_region [OF h, of "QPoint 775 10"]
      isInTitleBarDraggableArea_region [OF h, of "QPoint 300 40"]
      isInTitleBarDraggableArea_region [OF ho, of "QPoint 300 10"]
    by (simp add: g go spec speco lies_inside_def data1_def debug_build_def)
qed

lemma getWindow_toolkit_update [simp]:
  "getWindow (w\<lparr> QWidget_geometry := g \<rparr>) q = getWindow w q"
  "getWindow (w\<lparr> QWidget_minimumSize := mn \<rparr>) q = getWindow w q"
  "getWindow (w\<lparr> QWidget_maximumSize := mx \<rparr>) q = getWindow w q"
  "getWindow (w\<lparr> QWidget_windowFlags := f \<rparr>) q = getWindow w q"
  by (simp_all add: getWindow_def split: option.splits)

lemma hint_set: "(f OR MSWindowsFixedSizeDialogHint) AND MSWindowsFixedSizeDialogHint \<noteq> 0"
  by (simp add: MSWindowsFixedSizeDialogHint_def bit.conj_disj_distrib2)

lemma hint_nonzero: "MSWindowsFixedSizeDialogHint \<noteq> 0"
  by (simp add: MSWindowsFixedSizeDialogHint_def)

lemma hint_cleared: "(f AND NOT MSWindowsFixedSizeDialogHint) AND MSWindowsFixedSizeDialogHint = 0"
  by (simp add: and.assoc)

lemma setWindowFixedSize_true_roundtrip:
  assumes "getWindow w q = Some window"
  shows "isWindowFixedSize (setWindowFixedSize b w q True) q = True"
proof (cases "isWindowFixedSize w q")
  case True
  then show ?thesis using assms by (simp add: setWindowFixedSize_def)
next
  case False
  then show ?thesis
    using assms
    by (simp add: setWindowFixedSize_def isWindowFixedSize_def QWidget_setFixedSize_def
        QWidget_setWindowFlags_def QWidget_resize_def record_event_def hint_set hint_nonzero
        Let_def)
qed

lemma setWindowFixedSize_false_roundtrip:
  assumes "getWindow w q = Some window"
    and "QWidget_sizePolicy w window \<noteq> QSizePolicy_of Fixed Fixed"
    and "kDefaultWindowSize b \<noteq> QSize QWIDGETSIZE_MAX QWIDGETSIZE_MAX"
  shows "isWindowFixedSize (setWindowFixedSize b w q False) q = False"
proof (cases "isWindowFixedSize w q")
  case False
  then show ?thesis using assms by (simp add: setWindowFixedSize_def)
next
  case True
  then show ?thesis
    using assms
    by (simp add: setWindowFixedSize_def isWindowFixedSize_def QWidget_setMinimumSize_def
        QWidget_setMaximumSize_def QWidget_setWindowFlags_def QWidget_resize_def record_event_def
        hint_cleared Let_def)
qed

text \<open>
  Claim C3 fails on the code. \<^verbatim>\<open>isWindowFixedSize\<close> reports a window as fixed for any of
  three reasons: the dialog hint, equal non-empty minimum and maximum sizes, or a size
  policy fixed in both directions. \<^verbatim>\<open>setWindowFixedSize(false)\<close> undoes the first two and
  leaves the size policy alone. For the concrete window with a fixed size policy, which
  reports fixed, the call \<^verbatim>\<open>setWindowFixedSize(false)\<close> is followed by
  \<^verbatim>\<open>isWindowFixedSize()\<close> returning true, although the hint is clear and the minimum and
  maximum sizes differ afterwards.
\<close>

theorem setWindowFixedSize_false_with_fixed_sizePolicy:
  "getWindow world_fixedPolicy helper0 = Some 1
   \<and> isWindowFixedSize world_fixedPolicy helper0 = True
   \<and> isWindowFixedSize (setWindowFixedSize release_build world_fixedPolicy helper0 False) helper0 = True
   \<and> QWidget_windowFlags (setWindowFixedSize release_build world_fixedPolicy helper0 False) 1
        AND MSWindowsFixedSizeDialogHint = 0
   \<and> QWidget_minimumSize (setWindowFixedSize release_build world_fixedPolicy helper0 False) 1
        \<noteq> QWidget_maximumSize (setWindowFixedSize release_build world_fixedPolicy helper0 False) 1"
proof -
  have g: "getWindow world_fixedPolicy helper0 = Some 1"
    by (simp add: getWindow_def world_fixedPolicy_def world0_fields helper0_def)
  have f: "QWidget_windowFlags world_fixedPolicy = (\<lambda>_. 0x1)"
    "QWidget_minimumSize world_fixedPolicy = (\<lambda>_. QSize 0 0)"
    "QWidget_maximumSize world_fixedPolicy = (\<lambda>_. QSize QWIDGETSIZE_MAX QWIDGETSIZE_MAX)"
    "QWidget_sizePolicy world_fixedPolicy = (\<lambda>_. QSizePolicy_of Fixed Fixed)"
    by (simp_all add: world_fixedPolicy_def world0_fields)
  have before: "isWindowFixedSize world_fixedPolicy helper0 = True"
    by (simp add: isWindowFixedSize_def g f MSWindowsFixedSizeDialogHint_def QSize_isEmpty_def)
  show ?thesis
    using g before
    by (simp add: setWindowFixedSize_def isWindowFixedSize_def f QWidget_setMinimumSize_def
        QWidget_setMaximumSize_def QWidget_setWindowFlags_def QWidget_resize_def record_event_def
        MSWindowsFixedSizeDialogHint_def QSize_isEmpty_def release_build_def QWIDGETSIZE_MAX_def
        Let_def)
qed

lemma window_actions_null:
  assumes "getWindow w q = None"
  shows "isWindowFixedSize w q = False"
    and "setWindowFixedSize b w q v = w"
    and "moveWindowToDesktopCenter w q = w"
    and "bringWindowToFront w q = w"
    and "showSystemMenu b w q pos = w"
    and "windowStartSystemMove2 w q pos = w"
    and "windowStartSystemResize2 w q edges pos = w"
  using assms
  by (simp_all add: isWindowFixedSize_def setWindowFixedSize_def moveWindowToDesktopCenter_def
      bringWindowToFront_def showSystemMenu_def windowStartSystemMove2_def
      windowStartSystemResize2_def)

lemma widget_operations_null_window:
  assumes "getWindow w q = None" and "assertions b \<longrightarrow> widget \<noteq> None"
  shows "setTitleBarWidget b w q widget = Inr w"
    and "setHitTestVisible b w q widget = Inr w"
    and "mapWidgetGeometryToScene b w q widget = Inr QRect_null"
    and "assertions b \<longrightarrow> buttonType \<noteq> Unknown \<Longrightarrow> setSystemButton b w q widget buttonType = Inr w"
  using assms
  by (auto simp: setTitleBarWidget_def setHitTestVisible_def mapWidgetGeometryToScene_def
      setSystemButton_def Q_ASSERT_fails_def getWindowDataMutable_null split: option.splits)

lemma isInSystemButtons_null_window:
  assumes "getWindow w q = None" and "assertions b \<longrightarrow> button \<noteq> None"
  shows "isInSystemButtons b w q pos button = Inr (w, False, map_option (\<lambda>_. Unknown) button)"
  using assms
  by (cases button)
     (auto simp: isInSystemButtons_def Q_ASSERT_fails_def getWindowData_null
        button_geometry_contains_def WidgetsHelperData_default_def)

lemma null_argument_release:
  assumes "\<not> assertions b"
  shows "setTitleBarWidget b w q None = Inr w"
    and "setHitTestVisible b w q None = Inr w"
    and "setSystemButton b w q None buttonType = Inr w"
    and "isInSystemButtons b w q pos None = Inr (w, False, None)"
    and "mapWidgetGeometryToScene b w q None = Inr QRect_null"
  using assms
  by (simp_all add: setTitleBarWidget_def setHitTestVisible_def setSystemButton_def
      isInSystemButtons_def mapWidgetGeometryToScene_def Q_ASSERT_fails_def)

lemma null_argument_debug:
  assumes "assertions b"
  shows "setTitleBarWidget b w q None = Inl Q_ASSERT_failed"
    and "setHitTestVisible b w q None = Inl Q_ASSERT_failed"
    and "setSystemButton b w q None buttonType = Inl Q_ASSERT_failed"
    and "isInSystemButtons b w q pos None = Inl Q_ASSERT_failed"
    and "mapWidgetGeometryToScene b w q None = Inl Q_ASSERT_failed"
  using assms
  by (simp_all add: setTitleBarWidget_def setHitTestVisible_def setSystemButton_def
      isInSystemButtons_def mapWidgetGeometryToScene_def Q_ASSERT_fails_def)

lemma abort_exactly:
  "(\<exists>e. setTitleBarWidget b w q widget = Inl e) \<longleftrightarrow> assertions b \<and> widget = None"
  "(\<exists>e. setHitTestVisible b w q widget = Inl e) \<longleftrightarrow> assertions b \<and> widget = None"
  "(\<exists>e. mapWidgetGeometryToScene b w q widget = Inl e) \<longleftrightarrow> assertions b \<and> widget = None"
  by (auto simp: setTitleBarWidget_def setHitTestVisible_def mapWidgetGeometryToScene_def
      Q_ASSERT_fails_def Let_def split: option.splits prod.splits if_splits)

lemma abort_exactly_setSystemButton:
  "(\<exists>e. setSystemButton b w q widget buttonType = Inl e) \<longleftrightarrow>
   assertions b \<and> (widget = None \<or> buttonType = Unknown)"
  by (cases buttonType)
     (auto simp: setSystemButton_def Q_ASSERT_fails_def split: option.splits prod.splits if_splits)

lemma abort_exactly_isInSystemButtons:
  "(\<exists>e. isInSystemButtons b w q pos button = Inl e) \<longleftrightarrow> assertions b \<and> button = None"
  by (auto simp: isInSystemButtons_def Q_ASSERT_fails_def Let_def split: prod.splits if_splits)

lemma unknown_type_release:
  "\<not> assertions b \<Longrightarrow> setSystemButton b w q widget Unknown = Inr w"
  by (simp add: setSystemButton_def Q_ASSERT_fails_def)

text \<open>
  Claim C4, as amended. Null guarding. When the helper's window is null, each of the twelve
  operations leaves the whole state as it is and returns its neutral value (false, the
  null rectangle, Unknown in the out-variable, or nothing), in every build, provided its
  widget, out-pointer and button type arguments pass its own assertions. A null widget or
  out-pointer argument, and the button type Unknown given to \<^verbatim>\<open>setSystemButton\<close>, is
  answered with the unchanged state and the neutral value only where \<^verbatim>\<open>Q_ASSERT\<close> is
  compiled out; where assertions are compiled in, the same call aborts on \<^verbatim>\<open>Q_ASSERT\<close>.
  No operation signals failure in any other way: \<^verbatim>\<open>setTitleBarWidget\<close>,
  \<^verbatim>\<open>setHitTestVisible\<close>, \<^verbatim>\<open>isInSystemButtons\<close> and \<^verbatim>\<open>mapWidgetGeometryToScene\<close> abort
  exactly when assertions are compiled in and their pointer argument is null,
  \<^verbatim>\<open>setSystemButton\<close> exactly when assertions are compiled in and its widget is null or its
  button type is Unknown, and in every other case they return a plain value; the seven
  operations without such an argument have no failing outcome at all.
\<close>

theorem null_guards_neutral:
  "(getWindow w q = None \<longrightarrow>
      isWindowFixedSize w q = False
      \<and> setWindowFixedSize b w q v = w
      \<and> moveWindowToDesktopCenter w q = w
      \<and> bringWindowToFront w q = w
      \<and> showSystemMenu b w q pos = w
      \<and> windowStartSystemMove2 w q pos = w
      \<and> windowStartSystemResize2 w q edges pos = w)
   \<and> (getWindow w q = None \<and> (assertions b \<longrightarrow> widget \<noteq> None) \<longrightarrow>
      setTitleBarWidget b w q widget = Inr w
      \<and> setHitTestVisible b w q widget = Inr w
      \<and> mapWidgetGeometryToScene b w q widget = Inr QRect_null)
   \<and> (getWindow w q = None \<and> (assertions b \<longrightarrow> widget \<noteq> None \<and> buttonType \<noteq> Unknown) \<longrightarrow>
      setSystemButton b w q widget buttonType = Inr w)
   \<and> (getWindow w q = None \<and> (assertions b \<longrightarrow> button \<noteq> None) \<longrightarrow>
      isInSystemButtons b w q pos button = Inr (w, False, map_option (\<lambda>_. Unknown) button))
   \<and> (\<not> assertions b \<longrightarrow>
      setTitleBarWidget b w q None = Inr w
      \<and> setHitTestVisible b w q None = Inr w
      \<and> setSystemButton b w q None buttonType = Inr w
      \<and> setSystemButton b w q widget Unknown = Inr w
      \<and> isInSystemButtons b w q pos None = Inr (w, False, None)
      \<and> mapWidgetGeometryToScene b w q None = Inr QRect_null)
   \<and> (assertions b \<longrightarrow>
      setTitleBarWidget b w q None = Inl Q_ASSERT_failed
      \<and> setHitTestVisible b w q None = Inl Q_ASSERT_failed
      \<and> setSystemButton b w q None buttonType = Inl Q_ASSERT_failed
      \<and> setSystemButton b w q widget Unknown = Inl Q_ASSERT_failed
      \<and> isInSystemButtons b w q pos None = Inl Q_ASSERT_failed
      \<and> mapWidgetGeometryToScene b w q None = Inl Q_ASSERT_failed)
   \<and> ((\<exists>e. setTitleBarWidget b w q widget = Inl e) \<longleftrightarrow> assertions b \<and> widget = None)
   \<and> ((\<exists>e. setHitTestVisible b w q widget = Inl e) \<longleftrightarrow> assertions b \<and> widget = None)
   \<and> ((\<exists>e. setSystemButton b w q widget buttonType = Inl e) \<longleftrightarrow>
        assertions b \<and> (widget = None \<or> buttonType = Unknown))
   \<and> ((\<exists>e. isInSystemButtons b w q pos button = Inl e) \<longleftrightarrow> assertions b \<and> button = None)
   \<and> ((\<exists>e. mapWidgetGeometryToScene b w q widget = Inl e) \<longleftrightarrow> assertions b \<and> widget = None)"
proof -
  have a: "getWindow w q = None \<longrightarrow>
      isWindowFixedSize w q = False
      \<and> setWindowFixedSize b w q v = w
      \<and> moveWindowToDesktopCenter w q = w
      \<and> bringWindowToFront w q = w
      \<and> showSystemMenu b w q pos = w
      \<and> windowStartSystemMove2 w q pos = w
      \<and> windowStartSystemResize2 w q edges pos = w"
    using window_actions_null [of w q] by simp
  have b: "getWindow w q = None \<and> (assertions b \<longrightarrow> widget \<noteq> None) \<longrightarrow>
      setTitleBarWidget b w q widget = Inr w
      \<and> setHitTestVisible b w q widget = Inr w
      \<and> mapWidgetGeometryToScene b w q widget = Inr QRect_null"
    using widget_operations_null_window(1-3) [of w q b widget] by blast
  have c: "getWindow w q = None \<and> (assertions b \<longrightarrow> widget \<noteq> None \<and> buttonType \<noteq> Unknown) \<longrightarrow>
      setSystemButton b w q widget buttonType = Inr w"
    using widget_operations_null_window(4) [of w q b widget buttonType] by blast
  have d: "getWindow w q = None \<and> (assertions b \<longrightarrow> button \<noteq> None) \<longrightarrow>
      isInSystemButtons b w q pos button = Inr (w, False, map_option (\<lambda>_. Unknown) button)"
    using isInSystemButtons_null_window [of w q b button pos] by blast
  have e: "\<not> assertions b \<longrightarrow>
      setTitleBarWidget b w q None = Inr w
      \<and> setHitTestVisible b w q None = Inr w
      \<and> setSystemButton b w q None buttonType = Inr w
      \<and> setSystemButton b w q widget Unknown = Inr w
      \<and> isInSystemButtons b w q pos None = Inr (w, False, None)
      \<and> mapWidgetGeometryToScene b w q None = Inr QRect_null"
    using null_argument_release [of b w q] unknown_type_release [of b w q widget] by simp
  have u: "assertions b \<longrightarrow> setSystemButton b w q widget Unknown = Inl Q_ASSERT_failed"
    by (simp add: setSystemButton_def Q_ASSERT_fails_def)
  have f: "assertions b \<longrightarrow>
      setTitleBarWidget b w q None = Inl Q_ASSERT_failed
      \<and> setHitTestVisible b w q None = Inl Q_ASSERT_failed
      \<and> setSystemButton b w q None buttonType = Inl Q_ASSERT_failed
      \<and> setSystemButton b w q widget Unknown = Inl Q_ASSERT_failed
      \<and> isInSystemButtons b w q pos None = Inl Q_ASSERT_failed
      \<and> mapWidgetGeometryToScene b w q None = Inl Q_ASSERT_failed"
    using null_argument_debug [of b w q] u by simp
  note g = abort_exactly [of b w q widget] abort_exactly_setSystemButton [of b w q widget buttonType]
    abort_exactly_isInSystemButtons [of b w q pos button]
  from a b c d e f g show ?thesis by blast
qed

theorem null_guards_neutral_witness:
  "getWindow world1 orphan = None
   \<and> assertions debug_build
   \<and> isWindowFixedSize world1 orphan = False
   \<and> setWindowFixedSize debug_build world1 orphan True = world1
   \<and> moveWindowToDesktopCenter world1 orphan = world1
   \<and> bringWindowToFront world1 orphan = world1
   \<and> showSystemMenu debug_build world1 orphan (QPoint 3 4) = world1
   \<and> windowStartSystemMove2 world1 orphan (QPoint 3 4) = world1
   \<and> windowStartSystemResize2 world1 orphan 3 (QPoint 3 4) = world1
   \<and> setTitleBarWidget debug_build world1 orphan (Some 2) = Inr world1
   \<and> setHitTestVisible debug_build world1 orphan (Some 2) = Inr world1
   \<and> mapWidgetGeometryToScene debug_build world1 orphan (Some 2) = Inr QRect_null
   \<and> setSystemButton debug_build world1 orphan (Some 2) Close = Inr world1
   \<and> isInSystemButtons debug_build world1 orphan (QPoint 3 4) (Some Close) =
       Inr (world1, False, Some Unknown)
   \<and> \<not> assertions release_build
   \<and> setTitleBarWidget release_build world1 helper0 None = Inr world1
   \<and> setHitTestVisible release_build world1 helper0 None = Inr world1
   \<and> setSystemButton release_build world1 helper0 None Close = Inr world1
   \<and> setSystemButton release_build world1 helper0 (Some 4) Unknown = Inr world1
   \<and> isInSystemButtons release_build world1 helper0 (QPoint 3 4) None = Inr (world1, False, None)
   \<and> mapWidgetGeometryToScene release_build world1 helper0 None = Inr QRect_null
   \<and> setHitTestVisible debug_build world1 helper0 None = Inl Q_ASSERT_failed
   \<and> setSystemButton debug_build world1 helper0 (Some 4) Unknown = Inl Q_ASSERT_failed
   \<and> (\<nexists>e. setSystemButton debug_build world1 helper0 (Some 4) Close = Inl e)
   \<and> (\<nexists>e. setTitleBarWidget debug_build world1 helper0 (Some 4) = Inl e)
   \<and> (\<nexists>e. setTitleBarWidget release_build world1 helper0 None = Inl e)"
  using null_guards_neutral
          [where w = world1 and q = orphan and b = debug_build and widget = "Some 2"
             and buttonType = Close and button = "Some Close" and pos = "QPoint 3 4"
             and v = True and edges = 3]
    null_guards_neutral [where w = world1 and q = helper0 and b = release_build
             and buttonType = Close and pos = "QPoint 3 4" and widget = "Some 4"]
    null_guards_neutral [where w = world1 and q = helper0 and b = debug_build
             and widget = "Some 4" and buttonType = Close]
    null_guards_neutral [where w = world1 and q = helper0 and b = release_build
             and widget = None]
    getWindow_orphan [of world1]
  by (simp add: debug_build_def release_build_def)

theorem null_widget_assertion_counterexample:
  "setTitleBarWidget debug_build world1 helper0 None \<noteq> Inr world1
   \<and> setSystemButton debug_build world1 helper0 None Close = Inl Q_ASSERT_failed
   \<and> getWindow world1 helper0 = Some 1
   \<and> setSystemButton debug_build world1 helper0 (Some 4) Unknown = Inl Q_ASSERT_failed"
  using getWindow_world1_helper0
  by (simp add: setTitleBarWidget_def setSystemButton_def Q_ASSERT_fails_def debug_build_def)










end
